theory Spec2Isabelle
  imports Main
begin

section \<open>Data model\<close>

text \<open>
  The Python dictionaries of the pipeline have fixed keys, so each is a record. The
  records that share keys are built by extension, so that one selector
  (\<open>page_number\<close>, \<open>content\<close>, \<open>user_id\<close>, ...) reads the key of every dictionary
  that carries it:
  \<^item> \<open>page\<close>: what \<open>extract_text_from_pdf\<close> appends (\<open>page_number\<close>, \<open>text\<close>);
  \<^item> \<open>chunk\<close>: what \<open>chunk_text\<close> appends (\<open>content\<close>, \<open>page_number\<close>, \<open>chunk_index\<close>);
  \<^item> \<open>data_object\<close>: what \<open>store_chunks\<close> writes to the class \<open>PaperChunk\<close>;
  \<^item> \<open>retrieved_chunk\<close>: what the retriever returns, with the \<open>distance\<close> key
    present only in the two similarity searches.
  Python's \<open>int\<close> is \<open>int\<close>; a Python \<open>str\<close> is a \<open>string\<close>.
\<close>

record paged =
  page_number :: int

record page = paged +
  page_text :: string

record chunk = paged +
  content :: string
  chunk_index :: int

record paper_chunk = chunk +
  paper_id :: string
  paper_title :: string
  user_id :: string

record data_object = paper_chunk +
  upload_date :: string

record 'd retrieved_chunk = paper_chunk +
  distance :: "'d option"

text \<open>
  A citation (\<open>{"paper": ..., "page": ...}\<close>) and an entry of the paper listing
  (\<open>{"paper_id": ..., "paper_title": ..., "upload_date": ...}\<close>, its fields prefixed
  here because the chunk records already own these names).
\<close>

record source =
  paper :: string
  page :: int

record paper_info =
  info_paper_id :: string
  info_paper_title :: string
  info_upload_date :: string

text \<open>
  Exceptions are values. \<open>ValueError\<close> is raised by the repository itself; the other
  three stand for whatever the embedding provider, the vector store client and the
  language model client raise. Each carries its message (\<open>str(e)\<close>).
\<close>

datatype error =
  ValueError string
| EmbeddingError string
| StoreUnavailableError string
| LLMError string

fun str_error :: "error \<Rightarrow> string" where
  "str_error (ValueError m) = m"
| "str_error (EmbeddingError m) = m"
| "str_error (StoreUnavailableError m) = m"
| "str_error (LLMError m) = m"

section \<open>The chunker (\<open>rag/ingest.py\<close>, \<open>rag/pdf_processor_alt.py\<close>)\<close>

text \<open>
  \<open>str.strip()\<close> removes the leading and the trailing whitespace. On the 8-bit
  characters of \<open>string\<close>, Python's whitespace is: tab, line feed, vertical tab, form
  feed, carriage return, the four separators 0x1C..0x1F, the space, 0x85 and 0xA0.
\<close>

definition isspace :: "char \<Rightarrow> bool" where
  "isspace c = (List.member [9, 10, 11, 12, 13, 28, 29, 30, 31, 32, 133, 160 :: nat] (of_char c))"

definition strip :: "string \<Rightarrow> string" where
  "strip s = rev (dropWhile isspace (rev (dropWhile isspace s)))"

text \<open>
  \<open>chunk_text\<close> is the same text in \<open>PDFIngester\<close> and in \<open>AlternativePDFProcessor\<close>.
  The splitter \<open>self.text_splitter.split_text\<close> is the imported
  \<open>RecursiveCharacterTextSplitter\<close>: it is the parameter \<open>split_text\<close>. The two loops
  carry the list \<open>chunks\<close> and the counter \<open>chunk_index\<close>.

  \<^verbatim>\<open>
  for chunk_text in page_chunks:
      if chunk_text.strip():
          chunks.append({"content": chunk_text.strip(),
                         "page_number": page_number, "chunk_index": chunk_index})
          chunk_index += 1
  \<close>
\<close>

fun chunk_page :: "int \<Rightarrow> string list \<Rightarrow> chunk list \<Rightarrow> int \<Rightarrow> chunk list \<times> int" where
  "chunk_page pn [] chunks ci = (chunks, ci)"
| "chunk_page pn (t # ts) chunks ci =
     (if strip t \<noteq> []
      then chunk_page pn ts
             (chunks @ [\<lparr>page_number = pn, content = strip t, chunk_index = ci\<rparr>]) (ci + 1)
      else chunk_page pn ts chunks ci)"

fun chunk_pages ::
  "(string \<Rightarrow> string list) \<Rightarrow> page list \<Rightarrow> chunk list \<Rightarrow> int \<Rightarrow> chunk list \<times> int" where
  "chunk_pages split_text [] chunks ci = (chunks, ci)"
| "chunk_pages split_text (p # ps) chunks ci =
     (case chunk_page (page_number p) (split_text (page_text p)) chunks ci of
        (chunks', ci') \<Rightarrow> chunk_pages split_text ps chunks' ci')"

definition chunk_text :: "(string \<Rightarrow> string list) \<Rightarrow> page list \<Rightarrow> chunk list" where
  "chunk_text split_text pages = fst (chunk_pages split_text pages [] 0)"

definition alt_chunk_text :: "(string \<Rightarrow> string list) \<Rightarrow> page list \<Rightarrow> chunk list" where
  "alt_chunk_text split_text pages = fst (chunk_pages split_text pages [] 0)"

text \<open>The pieces of one page that survive \<open>if chunk_text.strip()\<close>, stripped.\<close>

definition kept :: "string list \<Rightarrow> string list" where
  "kept ts = filter (\<lambda>s. s \<noteq> []) (map strip ts)"

text \<open>What a chunk says beside its index: the page number and the content.\<close>

definition attributed :: "chunk \<Rightarrow> int \<times> string" where
  "attributed c = (page_number c, content c)"

text \<open>All the surviving pieces of a document, page after page.\<close>

definition pieces :: "(string \<Rightarrow> string list) \<Rightarrow> page list \<Rightarrow> (int \<times> string) list" where
  "pieces split_text pages =
     concat (map (\<lambda>p. map (\<lambda>s. (page_number p, s)) (kept (split_text (page_text p)))) pages)"

section \<open>Citations (\<open>rag/chain.py\<close>, \<open>_extract_sources\<close>)\<close>

text \<open>
  \<open>str(n)\<close> of a Python \<open>int\<close>, as an f-string formats it: the decimal digits, most
  significant first, after a minus sign when \<open>n\<close> is negative.
\<close>

definition digit :: "nat \<Rightarrow> char" where
  "digit d = ''0123456789'' ! d"

fun digits :: "nat \<Rightarrow> string" where
  "digits n = (if n < 10 then [digit n] else digits (n div 10) @ [digit (n mod 10)])"

declare digits.simps [simp del]

definition str_int :: "int \<Rightarrow> string" where
  "str_int i = (if i < 0 then CHR ''-'' # digits (nat (- i)) else digits (nat i))"

text \<open>
  \<^verbatim>\<open>
  sources = []; seen_sources = set()
  for chunk in chunks:
      source_key = f"{chunk['paper_title']}_{chunk['page_number']}"
      if source_key not in seen_sources:
          sources.append({"paper": chunk['paper_title'], "page": chunk['page_number']})
          seen_sources.add(source_key)
  return sources
  \<close>
  The loop carries \<open>sources\<close> and \<open>seen_sources\<close>. It reads only \<open>paper_title\<close> and
  \<open>page_number\<close>, so it takes any record that extends \<open>paper_chunk\<close>.
\<close>

definition source_key :: "string \<Rightarrow> int \<Rightarrow> string" where
  "source_key title pn = title @ ''_'' @ str_int pn"

fun extract_sources_loop ::
  "'a paper_chunk_scheme list \<Rightarrow> source list \<Rightarrow> string set \<Rightarrow> source list" where
  "extract_sources_loop [] sources seen_sources = sources"
| "extract_sources_loop (c # cs) sources seen_sources =
     (if source_key (paper_title c) (page_number c) \<notin> seen_sources
      then extract_sources_loop cs
             (sources @ [\<lparr>paper = paper_title c, page = page_number c\<rparr>])
             (insert (source_key (paper_title c) (page_number c)) seen_sources)
      else extract_sources_loop cs sources seen_sources)"

definition extract_sources :: "'a paper_chunk_scheme list \<Rightarrow> source list" where
  "extract_sources chunks = extract_sources_loop chunks [] {}"

text \<open>
  The statement to compare with, in the words of the specification: each distinct
  (paper, page) pair once, in the order of first occurrence. \<open>first_occurrences\<close> keeps
  the head of a list and removes its later copies from the rest.
\<close>

primrec first_occurrences :: "'a list \<Rightarrow> 'a list" where
  "first_occurrences [] = []"
| "first_occurrences (x # xs) = x # filter (\<lambda>y. y \<noteq> x) (first_occurrences xs)"

definition cited :: "'a paper_chunk_scheme \<Rightarrow> string \<times> int" where
  "cited c = (paper_title c, page_number c)"

definition pair_of :: "source \<Rightarrow> string \<times> int" where
  "pair_of s = (paper s, page s)"

text \<open>The inverse of \<open>digits\<close>, used to show that \<open>str(n)\<close> determines \<open>n\<close>.\<close>

definition undigits :: "string \<Rightarrow> nat" where
  "undigits s = foldl (\<lambda>a c. 10 * a + (of_char c - 48)) 0 s"

section \<open>The vector store\<close>

text \<open>
  Modelled from the spec: the Weaviate server and its client library are not part of the
  repository; what the calls of the repository do there follows the contract of the
  specification's Vector Store Adapter and the client's documented behaviour:
  \<^item> the store maps a class name to its objects in storage order, each object with the
    vector supplied for it (\<open>vectorizer: none\<close>);
  \<^item> \<open>schema.delete_class\<close> removes a class together with its objects;
    \<open>schema.create_class\<close> adds an empty class and fails when the class exists;
  \<^item> a \<open>where\<close> filter is an \<open>Equal\<close> test of a text property against \<open>valueString\<close>, or
    the \<open>And\<close> of its operands;
  \<^item> \<open>get ... with_where ... with_limit\<close> returns the first \<open>limit\<close> matching objects in
    storage order; with \<open>with_near_vector\<close> the matching objects are ordered by ascending
    distance first, and each comes with its distance;
  \<^item> a batch appends its objects to the class.
  Every call fails when the backend does not answer: the flag \<open>ok\<close> of a call says
  whether it does. The distance function of the index is the parameter \<open>dist\<close>; limits
  are natural numbers.
\<close>

type_synonym 'v weaviate = "string \<rightharpoonup> (data_object \<times> 'v) list"

definition objects :: "'v weaviate \<Rightarrow> string \<Rightarrow> (data_object \<times> 'v) list" where
  "objects db cls = (case db cls of None \<Rightarrow> [] | Some objs \<Rightarrow> objs)"

definition delete_class :: "bool \<Rightarrow> 'v weaviate \<Rightarrow> string \<Rightarrow> error + 'v weaviate" where
  "delete_class ok db cls =
     (if \<not> ok then Inl (StoreUnavailableError ''delete_class'')
      else Inr (db(cls := None)))"

definition create_class :: "bool \<Rightarrow> 'v weaviate \<Rightarrow> string \<Rightarrow> error + 'v weaviate" where
  "create_class ok db cls =
     (if \<not> ok then Inl (StoreUnavailableError ''create_class'')
      else if db cls \<noteq> None then Inl (StoreUnavailableError ''class already exists'')
      else Inr (db(cls \<mapsto> [])))"

datatype where_filter =
  Equal string string
| And "where_filter list"

definition text_property :: "string \<Rightarrow> data_object \<Rightarrow> string option" where
  "text_property path obj =
     (if path = ''content'' then Some (content obj)
      else if path = ''paper_id'' then Some (paper_id obj)
      else if path = ''paper_title'' then Some (paper_title obj)
      else if path = ''user_id'' then Some (user_id obj)
      else None)"

fun matches :: "where_filter \<Rightarrow> data_object \<Rightarrow> bool" where
  "matches (Equal path v) obj = (text_property path obj = Some v)"
| "matches (And operands) obj = list_all (\<lambda>f. matches f obj) operands"

definition matching ::
  "bool \<Rightarrow> 'v weaviate \<Rightarrow> string \<Rightarrow> where_filter \<Rightarrow> error + (data_object \<times> 'v) list" where
  "matching ok db cls flt =
     (if \<not> ok then Inl (StoreUnavailableError ''query'')
      else case db cls of
        None \<Rightarrow> Inl (StoreUnavailableError ''no such class'')
      | Some objs \<Rightarrow> Inr (filter (\<lambda>(obj, v). matches flt obj) objs))"

definition get_where ::
  "bool \<Rightarrow> 'v weaviate \<Rightarrow> string \<Rightarrow> where_filter \<Rightarrow> nat \<Rightarrow> error + data_object list" where
  "get_where ok db cls flt limit =
     (case matching ok db cls flt of
        Inl e \<Rightarrow> Inl e
      | Inr objs \<Rightarrow> Inr (take limit (map fst objs)))"

definition get_near_vector ::
  "bool \<Rightarrow> ('v \<Rightarrow> 'v \<Rightarrow> 'd::linorder) \<Rightarrow> 'v weaviate \<Rightarrow> string \<Rightarrow> 'v \<Rightarrow> where_filter \<Rightarrow> nat \<Rightarrow>
     error + (data_object \<times> 'd) list" where
  "get_near_vector ok dist db cls q flt limit =
     (case matching ok db cls flt of
        Inl e \<Rightarrow> Inl e
      | Inr objs \<Rightarrow>
          Inr (take limit (map (\<lambda>(obj, v). (obj, dist q v))
                             (sort_key (\<lambda>(obj, v). dist q v) objs))))"

definition send_batch ::
  "bool \<Rightarrow> 'v weaviate \<Rightarrow> (data_object \<times> 'v) list \<Rightarrow> error + 'v weaviate" where
  "send_batch ok db objs =
     (if objs = [] then Inr db
      else if \<not> ok then Inl (StoreUnavailableError ''batch'')
      else Inr (db(''PaperChunk'' \<mapsto> objects db ''PaperChunk'' @ objs)))"

section \<open>The retriever (\<open>rag/retriever.py\<close>)\<close>

text \<open>
  Every method is one \<open>try\<close> block whose handler prints and returns \<open>[]\<close>, so a method
  returns a list whatever happens. \<open>embed_query\<close> is \<open>self.embeddings.embed_query\<close> (the
  embedding provider, which may raise).

  \<^verbatim>\<open>
  try:
      query_embedding = self.embeddings.embed_query(query)
      result = (self.client.query.get("PaperChunk", [...])
                .with_near_vector({"vector": query_embedding})
                .with_where({"path": ["user_id"], "operator": "Equal",
                             "valueString": user_id})
                .with_limit(top_k).with_additional(["distance"]).do())
      chunks = []
      if result["data"]["Get"]["PaperChunk"]:
          for item in result["data"]["Get"]["PaperChunk"]:
              chunks.append({... "distance": item["_additional"]["distance"],
                             "user_id": item["user_id"]})
      return chunks
  except Exception as e:
      print(f"Error retrieving chunks: {e}")
      return []
  \<close>
\<close>

definition retrieved :: "'d option \<Rightarrow> data_object \<Rightarrow> 'd retrieved_chunk" where
  "retrieved d item =
     \<lparr>page_number = page_number item, content = content item,
      chunk_index = chunk_index item, paper_id = paper_id item,
      paper_title = paper_title item, user_id = user_id item, distance = d\<rparr>"

definition retrieve_relevant_chunks ::
  "(string \<Rightarrow> error + 'v) \<Rightarrow> ('v \<Rightarrow> 'v \<Rightarrow> 'd::linorder) \<Rightarrow> bool \<Rightarrow> 'v weaviate \<Rightarrow>
     string \<Rightarrow> string \<Rightarrow> nat \<Rightarrow> 'd retrieved_chunk list" where
  "retrieve_relevant_chunks embed_query dist ok db query uid top_k =
     (case embed_query query of
        Inl e \<Rightarrow> []
      | Inr query_embedding \<Rightarrow>
          (case get_near_vector ok dist db ''PaperChunk'' query_embedding
                  (Equal ''user_id'' uid) top_k of
             Inl e \<Rightarrow> []
           | Inr items \<Rightarrow> map (\<lambda>(item, d). retrieved (Some d) item) items))"

definition retrieve_by_paper_id ::
  "bool \<Rightarrow> 'v weaviate \<Rightarrow> string \<Rightarrow> string \<Rightarrow> nat \<Rightarrow> 'd retrieved_chunk list" where
  "retrieve_by_paper_id ok db pid uid top_k =
     (case get_where ok db ''PaperChunk''
             (And [Equal ''paper_id'' pid, Equal ''user_id'' uid]) top_k of
        Inl e \<Rightarrow> []
      | Inr items \<Rightarrow> map (retrieved None) items)"

text \<open>
  \<^verbatim>\<open>
  result = (... .with_where({"path": ["user_id"], ...}).with_limit(1000).do())
  papers = []
  if result["data"]["Get"]["PaperChunk"]:
      seen_papers = set()
      for item in result["data"]["Get"]["PaperChunk"]:
          paper_id = item["paper_id"]
          if paper_id not in seen_papers:
              papers.append({"paper_id": paper_id, "paper_title": item["paper_title"],
                             "upload_date": item["upload_date"]})
              seen_papers.add(paper_id)
  return papers
  \<close>
\<close>

fun user_papers_loop ::
  "data_object list \<Rightarrow> paper_info list \<Rightarrow> string set \<Rightarrow> paper_info list" where
  "user_papers_loop [] papers seen_papers = papers"
| "user_papers_loop (item # items) papers seen_papers =
     (if paper_id item \<notin> seen_papers
      then user_papers_loop items
             (papers @ [\<lparr>info_paper_id = paper_id item,
                         info_paper_title = paper_title item,
                         info_upload_date = upload_date item\<rparr>])
             (insert (paper_id item) seen_papers)
      else user_papers_loop items papers seen_papers)"

definition get_user_papers :: "bool \<Rightarrow> 'v weaviate \<Rightarrow> string \<Rightarrow> paper_info list" where
  "get_user_papers ok db uid =
     (case get_where ok db ''PaperChunk'' (Equal ''user_id'' uid) 1000 of
        Inl e \<Rightarrow> []
      | Inr items \<Rightarrow> user_papers_loop items [] {})"

definition search_similar_chunks ::
  "(string \<Rightarrow> error + 'v) \<Rightarrow> ('v \<Rightarrow> 'v \<Rightarrow> 'd::linorder) \<Rightarrow> bool \<Rightarrow> 'v weaviate \<Rightarrow>
     string \<Rightarrow> string \<Rightarrow> nat \<Rightarrow> 'd retrieved_chunk list" where
  "search_similar_chunks embed_query dist ok db chunk_content uid top_k =
     (case embed_query chunk_content of
        Inl e \<Rightarrow> []
      | Inr chunk_embedding \<Rightarrow>
          (case get_near_vector ok dist db ''PaperChunk'' chunk_embedding
                  (Equal ''user_id'' uid) top_k of
             Inl e \<Rightarrow> []
           | Inr items \<Rightarrow> map (\<lambda>(item, d). retrieved (Some d) item) items))"

text \<open>The query that \<open>retrieve_relevant_chunks\<close> and \<open>search_similar_chunks\<close> share,
  once the text is embedded.\<close>

definition near_users ::
  "('v \<Rightarrow> 'v \<Rightarrow> 'd::linorder) \<Rightarrow> bool \<Rightarrow> 'v weaviate \<Rightarrow> 'v \<Rightarrow> string \<Rightarrow> nat \<Rightarrow> 'd retrieved_chunk list" where
  "near_users dist ok db q uid top_k =
     (case get_near_vector ok dist db ''PaperChunk'' q (Equal ''user_id'' uid) top_k of
        Inl e \<Rightarrow> []
      | Inr items \<Rightarrow> map (\<lambda>(item, d). retrieved (Some d) item) items)"

section \<open>Ingestion (\<open>rag/ingest.py\<close>)\<close>

text \<open>
  \<open>PDFIngester.__init__\<close> checks the configuration and calls \<open>_create_schema\<close>:
  \<^verbatim>\<open>
  try:
      self.client.schema.delete_class("PaperChunk")
  except Exception as e:
      print(f"Info: Schema deletion skipped: {e}")
  schema = {"class": "PaperChunk", ..., "vectorizer": "none"}
  try:
      self.client.schema.create_class(schema)
  except Exception as e:
      pass
  \<close>
  \<open>delete_ok\<close> and \<open>create_ok\<close> say whether the backend answers the two calls.
\<close>

definition create_schema :: "bool \<Rightarrow> bool \<Rightarrow> 'v weaviate \<Rightarrow> 'v weaviate" where
  "create_schema delete_ok create_ok db =
     (let db1 = (case delete_class delete_ok db ''PaperChunk'' of
                   Inl e \<Rightarrow> db
                 | Inr db' \<Rightarrow> db')
      in case create_class create_ok db1 ''PaperChunk'' of
           Inl e \<Rightarrow> db1
         | Inr db' \<Rightarrow> db')"

definition ingester_init ::
  "string \<Rightarrow> string \<Rightarrow> bool \<Rightarrow> bool \<Rightarrow> 'v weaviate \<Rightarrow> error + 'v weaviate" where
  "ingester_init weaviate_url weaviate_api_key delete_ok create_ok db =
     (if weaviate_url = [] \<or> weaviate_api_key = []
      then Inl (ValueError (''Missing Weaviate configuration. Please check WEAVIATE_URL '' @
                            ''and WEAVIATE_API_KEY in your Streamlit secrets.''))
      else Inr (create_schema delete_ok create_ok db))"

text \<open>
  \<open>store_chunks\<close> walks the chunks in slices of \<open>batch_size = 50\<close>:
  \<^verbatim>\<open>
  for i in range(0, len(chunks), batch_size):
      batch_chunks = chunks[i:i + batch_size]
      try:
          self.client.batch.configure(batch_size=batch_size)
          with self.client.batch as batch:
              for chunk in batch_chunks:
                  embedding = self.embeddings.embed_query(chunk["content"])
                  data_object = {"content": chunk["content"], "paper_id": paper_id, ...}
                  batch.add_data_object(data_object=data_object,
                                        class_name="PaperChunk", vector=embedding)
      except Exception as e:
          print(f"Error storing batch: {e}")
          raise
  \<close>
  The inner loop gathers the objects of one slice until an embedding fails. The objects
  of a slice are sent when the slice is complete. When the block is left by an exception,
  \<open>exit_flushes\<close> says whether the client's context manager still sends the objects
  gathered so far (the client's behaviour, a parameter here). \<open>up i\<close> says whether the backend accepts
  the batch of the slice that starts at index \<open>i\<close>. The handler re-raises, so the first
  failure ends \<open>store_chunks\<close>; what earlier slices have sent stays in the store.
\<close>

definition data_object_of ::
  "string \<Rightarrow> string \<Rightarrow> string \<Rightarrow> string \<Rightarrow> chunk \<Rightarrow> data_object" where
  "data_object_of pid title uid date c =
     \<lparr>page_number = page_number c, content = content c, chunk_index = chunk_index c,
      paper_id = pid, paper_title = title, user_id = uid, upload_date = date\<rparr>"

fun add_data_objects ::
  "(string \<Rightarrow> error + 'v) \<Rightarrow> string \<Rightarrow> string \<Rightarrow> string \<Rightarrow> string \<Rightarrow> chunk list \<Rightarrow>
     (data_object \<times> 'v) list \<Rightarrow> (data_object \<times> 'v) list \<times> error option" where
  "add_data_objects embed_query pid title uid date [] pending = (pending, None)"
| "add_data_objects embed_query pid title uid date (c # cs) pending =
     (case embed_query (content c) of
        Inl e \<Rightarrow> (pending, Some e)
      | Inr embedding \<Rightarrow>
          add_data_objects embed_query pid title uid date cs
            (pending @ [(data_object_of pid title uid date c, embedding)]))"

definition store_batch ::
  "(string \<Rightarrow> error + 'v) \<Rightarrow> string \<Rightarrow> string \<Rightarrow> string \<Rightarrow> string \<Rightarrow> bool \<Rightarrow> bool \<Rightarrow>
     chunk list \<Rightarrow> 'v weaviate \<Rightarrow> 'v weaviate \<times> (error + unit)" where
  "store_batch embed_query pid title uid date exit_flushes ok batch_chunks db =
     (case add_data_objects embed_query pid title uid date batch_chunks [] of
        (pending, None) \<Rightarrow>
          (case send_batch ok db pending of
             Inl e \<Rightarrow> (db, Inl e)
           | Inr db' \<Rightarrow> (db', Inr ()))
      | (pending, Some e) \<Rightarrow>
          (if exit_flushes
           then (case send_batch ok db pending of
                   Inl e' \<Rightarrow> (db, Inl e')
                 | Inr db' \<Rightarrow> (db', Inl e))
           else (db, Inl e)))"

function store_chunks_loop ::
  "(string \<Rightarrow> error + 'v) \<Rightarrow> string \<Rightarrow> string \<Rightarrow> string \<Rightarrow> string \<Rightarrow> bool \<Rightarrow> (nat \<Rightarrow> bool) \<Rightarrow>
     nat \<Rightarrow> chunk list \<Rightarrow> 'v weaviate \<Rightarrow> 'v weaviate \<times> (error + unit)" where
  "store_chunks_loop embed_query pid title uid date exit_flushes up i rest db =
     (if rest = [] then (db, Inr ())
      else case store_batch embed_query pid title uid date exit_flushes (up i) (take 50 rest) db of
             (db', Inl e) \<Rightarrow> (db', Inl e)
           | (db', Inr u) \<Rightarrow>
               store_chunks_loop embed_query pid title uid date exit_flushes up (i + 50)
                 (drop 50 rest) db')"
  by pat_completeness auto
termination
  by (relation "measure (\<lambda>(embed_query, pid, title, uid, date, exit_flushes, up, i, rest, db).
        length rest)") auto

declare store_chunks_loop.simps [simp del]

definition store_chunks ::
  "(string \<Rightarrow> error + 'v) \<Rightarrow> bool \<Rightarrow> (nat \<Rightarrow> bool) \<Rightarrow> chunk list \<Rightarrow> string \<Rightarrow> string \<Rightarrow>
     string \<Rightarrow> string \<Rightarrow> 'v weaviate \<Rightarrow> 'v weaviate \<times> (error + unit)" where
  "store_chunks embed_query exit_flushes up chunks pid title uid date db =
     store_chunks_loop embed_query pid title uid date exit_flushes up 0 chunks db"

text \<open>
  \<open>ingest_pdf\<close>: the pages are what \<open>extract_text_from_pdf\<close> returned, the paper id is the
  fresh \<open>uuid4\<close>, the title is the file name and \<open>date\<close> is the clock reading of
  \<open>store_chunks\<close>.
\<close>

definition ingest_pdf ::
  "(string \<Rightarrow> error + 'v) \<Rightarrow> bool \<Rightarrow> (nat \<Rightarrow> bool) \<Rightarrow> (string \<Rightarrow> string list) \<Rightarrow> page list \<Rightarrow>
     string \<Rightarrow> string \<Rightarrow> string \<Rightarrow> string \<Rightarrow> 'v weaviate \<Rightarrow> 'v weaviate \<times> (error + string)" where
  "ingest_pdf embed_query exit_flushes up split_text pages pid title uid date db =
     (if pages = [] then (db, Inl (ValueError ''No text content found in PDF''))
      else let chunks = chunk_text split_text pages in
        if chunks = [] then (db, Inl (ValueError ''No valid chunks created from PDF''))
        else case store_chunks embed_query exit_flushes up chunks pid title uid date db of
               (db', Inl e) \<Rightarrow> (db', Inl e)
             | (db', Inr u) \<Rightarrow> (db', Inr pid))"

text \<open>What a chunk becomes in the store when its embedding succeeds.\<close>

definition stored ::
  "(string \<Rightarrow> error + 'v) \<Rightarrow> string \<Rightarrow> string \<Rightarrow> string \<Rightarrow> string \<Rightarrow> chunk \<Rightarrow> data_object \<times> 'v" where
  "stored embed_query pid title uid date c =
     (data_object_of pid title uid date c, projr (embed_query (content c)))"

text \<open>The store after a batch has been accepted (an empty batch sends nothing).\<close>

definition append_objects :: "'v weaviate \<Rightarrow> (data_object \<times> 'v) list \<Rightarrow> 'v weaviate" where
  "append_objects db objs =
     (if objs = [] then db else db(''PaperChunk'' \<mapsto> objects db ''PaperChunk'' @ objs))"

section \<open>The chain (\<open>rag/chain.py\<close>)\<close>

text \<open>
  The three persona prompts of \<open>self.persona_prompts\<close>, character for character (the
  continuation lines of the source carry their indentation), and the lookup
  \<open>self.persona_prompts.get(persona, self.persona_prompts["General User"])\<close>.
\<close>

definition student_prompt :: string where
  "student_prompt =
     ''You are a helpful AI assistant explaining research papers to students. \<newline>'' @
     ''            Your responses should be:\<newline>'' @
     ''            - Clear and easy to understand\<newline>'' @
     ''            - Focus on key concepts and takeaways\<newline>'' @
     ''            - Avoid overly technical jargon\<newline>'' @
     ''            - Provide practical insights and applications\<newline>'' @
     ''            - Use analogies when helpful\<newline>'' @
     ''            \<newline>'' @
     ''            Always cite your sources with paper title and page number.''"

definition professor_prompt :: string where
  "professor_prompt =
     ''You are an AI assistant helping professors analyze research papers. \<newline>'' @
     ''            Your responses should be:\<newline>'' @
     ''            - Critical and analytical\<newline>'' @
     ''            - Identify research gaps and limitations\<newline>'' @
     ''            - Discuss methodological strengths and weaknesses\<newline>'' @
     ''            - Compare with related work when relevant\<newline>'' @
     ''            - Suggest future research directions\<newline>'' @
     ''            - Use academic language and terminology\<newline>'' @
     ''            \<newline>'' @
     ''            Always cite your sources with paper title and page number.''"

definition general_user_prompt :: string where
  "general_user_prompt =
     ''You are a helpful AI assistant explaining research papers to general users. \<newline>'' @
     ''            Your responses should be:\<newline>'' @
     ''            - Written in plain English\<newline>'' @
     ''            - Focus on real-world implications\<newline>'' @
     ''            - Avoid technical jargon\<newline>'' @
     ''            - Be engaging and accessible\<newline>'' @
     ''            - Highlight why the research matters\<newline>'' @
     ''            \<newline>'' @
     ''            Always cite your sources with paper title and page number.''"

definition persona_prompts :: "string \<rightharpoonup> string" where
  "persona_prompts =
     [''Student'' \<mapsto> student_prompt,
      ''Professor'' \<mapsto> professor_prompt,
      ''General User'' \<mapsto> general_user_prompt]"

definition persona_prompt_of :: "string \<Rightarrow> string" where
  "persona_prompt_of persona =
     (case persona_prompts persona of
        None \<Rightarrow> general_user_prompt
      | Some prompt \<Rightarrow> prompt)"

text \<open>
  \<^verbatim>\<open>
  if not chunks:
      return "No relevant information found in the uploaded papers."
  context_parts = []
  for i, chunk in enumerate(chunks, 1):
      context_parts.append(f"""
  Source {i}: {chunk['paper_title']} (Page {chunk['page_number']})
  Content: {chunk['content']}
  ---""")
  return "\n".join(context_parts)
  \<close>
\<close>

fun join :: "string \<Rightarrow> string list \<Rightarrow> string" where
  "join sep [] = []"
| "join sep [x] = x"
| "join sep (x # y # ys) = x @ sep @ join sep (y # ys)"

definition context_part :: "nat \<Rightarrow> 'a paper_chunk_scheme \<Rightarrow> string" where
  "context_part i c =
     ''\<newline>'' @
     ''Source '' @
     str_int (int i) @
     '': '' @
     paper_title c @
     '' (Page '' @
     str_int (page_number c) @
     '')\<newline>'' @
     ''Content: '' @
     content c @
     ''\<newline>'' @
     ''---''"

definition format_context :: "'a paper_chunk_scheme list \<Rightarrow> string" where
  "format_context chunks =
     (if chunks = [] then ''No relevant information found in the uploaded papers.''
      else join ''\<newline>'' (map (\<lambda>(i, c). context_part i c) (enumerate 1 chunks)))"

text \<open>
  The result dictionary \<open>{"answer": ..., "sources": ...}\<close>. The language model is the
  function \<open>llm\<close> of the system prompt and the human message; every \<open>generate_\<close> method
  returns, beside its result, the list of the invocations of \<open>self.llm\<close> it made. The
  retriever is the object given to the constructor: its two methods are the parameters
  \<open>retrieve\<close>. Each method is one \<open>try\<close> block whose handler returns an error answer.
\<close>

record response =
  answer :: string
  answer_sources :: "source list"

definition no_relevant_information :: string where
  "no_relevant_information =
     ''I couldn't find any relevant information in your uploaded papers. Please make sure you have uploaded the papers you'd like me to analyze.''"

definition paper_not_found :: string where
  "paper_not_found =
     ''I couldn't find the specified paper in your uploaded documents.''"

definition no_information_for_comparison :: string where
  "no_information_for_comparison =
     ''I couldn't find any relevant information in your uploaded papers for comparison.''"

definition response_error :: "error \<Rightarrow> response" where
  "response_error e =
     \<lparr>answer = ''I encountered an error while processing your question: '' @
               str_error e @
               ''. Please try again.'',
      answer_sources = []\<rparr>"

definition summary_error :: "error \<Rightarrow> response" where
  "summary_error e =
     \<lparr>answer = ''I encountered an error while summarizing the paper: '' @
               str_error e @
               ''. Please try again.'',
      answer_sources = []\<rparr>"

definition comparison_error :: "error \<Rightarrow> response" where
  "comparison_error e =
     \<lparr>answer = ''I encountered an error while generating the comparison: '' @
               str_error e @
               ''. Please try again.'',
      answer_sources = []\<rparr>"

definition response_prompt :: "string \<Rightarrow> string \<Rightarrow> string \<Rightarrow> string" where
  "response_prompt persona_prompt context query =
     persona_prompt @
     ''\<newline>'' @
     ''\<newline>'' @
     ''You have access to the following information from research papers:\<newline>'' @
     ''\<newline>'' @
     context @
     ''\<newline>'' @
     ''\<newline>'' @
     ''Based on this information, answer the user's question. Be thorough but concise. Always cite your sources by mentioning the paper title and page number in your response.\<newline>'' @
     ''\<newline>'' @
     ''Question: '' @
     query"

definition summary_prompt :: "string \<Rightarrow> string \<Rightarrow> string \<Rightarrow> string \<Rightarrow> string" where
  "summary_prompt persona_prompt context persona title =
     persona_prompt @
     ''\<newline>'' @
     ''\<newline>'' @
     ''You have access to the following information from a research paper:\<newline>'' @
     ''\<newline>'' @
     context @
     ''\<newline>'' @
     ''\<newline>'' @
     ''Please provide a comprehensive summary of this paper. Include:\<newline>'' @
     ''1. Main research question/problem\<newline>'' @
     ''2. Methodology used\<newline>'' @
     ''3. Key findings\<newline>'' @
     ''4. Implications and conclusions\<newline>'' @
     ''\<newline>'' @
     ''Write the summary in a way that's appropriate for the '' @
     persona @
     '' persona.\<newline>'' @
     ''\<newline>'' @
     ''Paper: '' @
     title"

definition comparison_prompt :: "string \<Rightarrow> string \<Rightarrow> string \<Rightarrow> string \<Rightarrow> string" where
  "comparison_prompt persona_prompt context persona query =
     persona_prompt @
     ''\<newline>'' @
     ''\<newline>'' @
     ''You have access to information from multiple research papers:\<newline>'' @
     ''\<newline>'' @
     context @
     ''\<newline>'' @
     ''\<newline>'' @
     ''The user is asking for a comparison or analysis across these papers. Please provide a thoughtful comparison that:\<newline>'' @
     ''1. Identifies common themes and differences\<newline>'' @
     ''2. Highlights strengths and weaknesses of different approaches\<newline>'' @
     ''3. Provides insights that are appropriate for the '' @
     persona @
     '' persona\<newline>'' @
     ''\<newline>'' @
     ''Question: '' @
     query"

text \<open>
  \<^verbatim>\<open>
  try:
      chunks = self.retriever.retrieve_relevant_chunks(query, user_id, top_k=5)
      if not chunks:
          return {"answer": "I couldn't find any relevant information ...", "sources": []}
      context = self._format_context(chunks)
      persona_prompt = self.persona_prompts.get(persona, self.persona_prompts["General User"])
      system_prompt = f"""{persona_prompt} ... {context} ... Question: {query}"""
      response = self.llm.invoke([SystemMessage(content=system_prompt),
                                  HumanMessage(content=query)])
      return {"answer": response.content, "sources": self._extract_sources(chunks)}
  except Exception as e:
      return {"answer": f"I encountered an error ...: {str(e)}. Please try again.",
              "sources": []}
  \<close>
\<close>

definition generate_response ::
  "(string \<Rightarrow> string \<Rightarrow> nat \<Rightarrow> error + 'a paper_chunk_scheme list) \<Rightarrow>
     (string \<Rightarrow> string \<Rightarrow> error + string) \<Rightarrow> string \<Rightarrow> string \<Rightarrow> string \<Rightarrow>
     response \<times> (string \<times> string) list" where
  "generate_response retrieve llm query persona uid =
     (case retrieve query uid 5 of
        Inl e \<Rightarrow> (response_error e, [])
      | Inr chunks \<Rightarrow>
          if chunks = [] then (\<lparr>answer = no_relevant_information, answer_sources = []\<rparr>, [])
          else
            let context = format_context chunks;
                persona_prompt = persona_prompt_of persona;
                system_prompt = response_prompt persona_prompt context query
            in case llm system_prompt query of
                 Inl e \<Rightarrow> (response_error e, [(system_prompt, query)])
               | Inr reply \<Rightarrow>
                   (\<lparr>answer = reply, answer_sources = extract_sources chunks\<rparr>,
                    [(system_prompt, query)]))"

definition generate_summary ::
  "(string \<Rightarrow> string \<Rightarrow> nat \<Rightarrow> error + 'a paper_chunk_scheme list) \<Rightarrow>
     (string \<Rightarrow> string \<Rightarrow> error + string) \<Rightarrow> string \<Rightarrow> string \<Rightarrow> string \<Rightarrow>
     response \<times> (string \<times> string) list" where
  "generate_summary retrieve llm pid uid persona =
     (case retrieve pid uid 20 of
        Inl e \<Rightarrow> (summary_error e, [])
      | Inr chunks \<Rightarrow>
          if chunks = [] then (\<lparr>answer = paper_not_found, answer_sources = []\<rparr>, [])
          else
            let context = format_context chunks;
                persona_prompt = persona_prompt_of persona;
                system_prompt =
                  summary_prompt persona_prompt context persona (paper_title (hd chunks))
            in case llm system_prompt ''Please summarize this research paper.'' of
                 Inl e \<Rightarrow> (summary_error e, [(system_prompt, ''Please summarize this research paper.'')])
               | Inr reply \<Rightarrow>
                   (\<lparr>answer = reply, answer_sources = extract_sources chunks\<rparr>,
                    [(system_prompt, ''Please summarize this research paper.'')]))"

definition generate_comparison ::
  "(string \<Rightarrow> string \<Rightarrow> nat \<Rightarrow> error + 'a paper_chunk_scheme list) \<Rightarrow>
     (string \<Rightarrow> string \<Rightarrow> error + string) \<Rightarrow> string \<Rightarrow> string \<Rightarrow> string \<Rightarrow>
     response \<times> (string \<times> string) list" where
  "generate_comparison retrieve llm query uid persona =
     (case retrieve query uid 10 of
        Inl e \<Rightarrow> (comparison_error e, [])
      | Inr chunks \<Rightarrow>
          if chunks = [] then
            (\<lparr>answer = no_information_for_comparison, answer_sources = []\<rparr>, [])
          else
            let context = format_context chunks;
                persona_prompt = persona_prompt_of persona;
                system_prompt = comparison_prompt persona_prompt context persona query
            in case llm system_prompt query of
                 Inl e \<Rightarrow> (comparison_error e, [(system_prompt, query)])
               | Inr reply \<Rightarrow>
                   (\<lparr>answer = reply, answer_sources = extract_sources chunks\<rparr>,
                    [(system_prompt, query)]))"

section \<open>Concrete stores\<close>

text \<open>
  Inputs for the closed statements below. Vectors are single integers, the distance is
  the absolute difference, and the embedding of every text is \<open>0\<close>. \<open>small_store\<close>
  holds two chunks of user \<open>u1\<close> and one of user \<open>u2\<close>; \<open>big_store\<close> holds 1000 chunks
  of the paper \<open>paper-1\<close> followed by one chunk of \<open>paper-2\<close>, all of user \<open>u1\<close>.
\<close>

definition small_store :: "int weaviate" where
  "small_store = [''PaperChunk'' \<mapsto>
     [(\<lparr>page_number = 1, content = ''a-text'', chunk_index = 0, paper_id = ''paper-1'',
        paper_title = ''PaperA'', user_id = ''u1'', upload_date = ''2024-01-01''\<rparr>, 3),
      (\<lparr>page_number = 1, content = ''b-text'', chunk_index = 0, paper_id = ''paper-2'',
        paper_title = ''PaperB'', user_id = ''u2'', upload_date = ''2024-01-02''\<rparr>, 1),
      (\<lparr>page_number = 2, content = ''c-text'', chunk_index = 1, paper_id = ''paper-1'',
        paper_title = ''PaperA'', user_id = ''u1'', upload_date = ''2024-01-01''\<rparr>, 2)]]"

definition gap :: "int \<Rightarrow> int \<Rightarrow> int" where
  "gap a b = \<bar>a - b\<bar>"

definition embed_zero :: "string \<Rightarrow> error + int" where
  "embed_zero s = Inr 0"

definition first_chunk :: data_object where
  "first_chunk = \<lparr>page_number = 1, content = ''a-text'', chunk_index = 0, paper_id = ''paper-1'',
        paper_title = ''PaperA'', user_id = ''u1'', upload_date = ''2024-01-01''\<rparr>"

definition late_chunk :: data_object where
  "late_chunk = \<lparr>page_number = 1, content = ''z-text'', chunk_index = 0, paper_id = ''paper-2'',
        paper_title = ''PaperB'', user_id = ''u1'', upload_date = ''2024-01-02''\<rparr>"

definition big_store :: "int weaviate" where
  "big_store = [''PaperChunk'' \<mapsto> replicate 1000 (first_chunk, 0) @ [(late_chunk, 0)]]"

text \<open>
  A document of 51 pages, each far shorter than the chunk size of 1000 characters, so
  that the splitter returns every page as its single piece. The embedding provider fails
  on the text of the last page. \<open>failed_ingestion\<close> is the ingestion of that document into
  an empty store; \<open>rejected_ingestion\<close> is the ingestion of the same document with an
  embedding provider that never fails and a backend that rejects the second batch.
\<close>

definition fragile_embed :: "string \<Rightarrow> error + int" where
  "fragile_embed s = (if s = ''bad'' then Inl (EmbeddingError ''quota exceeded'') else Inr 0)"

definition one_piece :: "string \<Rightarrow> string list" where
  "one_piece s = [s]"

definition fifty_one_pages :: "page list" where
  "fifty_one_pages =
     map (\<lambda>i. \<lparr>page_number = int i + 1, page_text = ''good''\<rparr>) [0..<50] @
     [\<lparr>page_number = 51, page_text = ''bad''\<rparr>]"

definition good_chunks :: "chunk list" where
  "good_chunks =
     map (\<lambda>i. \<lparr>page_number = int i + 1, content = ''good'', chunk_index = int i\<rparr>) [0..<50]"

definition bad_chunk :: chunk where
  "bad_chunk = \<lparr>page_number = 51, content = ''bad'', chunk_index = 50\<rparr>"

definition failed_ingestion :: "bool \<Rightarrow> int weaviate \<times> (error + string)" where
  "failed_ingestion exit_flushes =
     ingest_pdf fragile_embed exit_flushes (\<lambda>i. True) one_piece fifty_one_pages
       ''paper-9'' ''Paper'' ''u1'' ''2024-01-01'' Map.empty"

definition rejected_ingestion :: "bool \<Rightarrow> int weaviate \<times> (error + string)" where
  "rejected_ingestion exit_flushes =
     ingest_pdf embed_zero exit_flushes (\<lambda>i. i < 50) one_piece fifty_one_pages
       ''paper-9'' ''Paper'' ''u1'' ''2024-01-01'' Map.empty"

text \<open>
  A retriever that finds nothing, and a language model that answers with the prompt it
  was given.
\<close>

definition nothing_found :: "string \<Rightarrow> string \<Rightarrow> nat \<Rightarrow> error + paper_chunk list" where
  "nothing_found q uid top_k = Inr []"

definition echo_llm :: "string \<Rightarrow> string \<Rightarrow> error + string" where
  "echo_llm system_prompt human = Inr system_prompt"

section \<open>Properties of the chunker\<close>

lemma chunk_page_attributed:
  "map attributed (fst (chunk_page pn ts chunks ci)) =
     map attributed chunks @ map (\<lambda>s. (pn, s)) (kept ts)"
  by (induction ts arbitrary: chunks ci) (simp_all add: kept_def attributed_def)

lemma chunk_page_counter: "snd (chunk_page pn ts chunks ci) = ci + int (length (kept ts))"
  by (induction ts arbitrary: chunks ci) (simp_all add: kept_def)

lemma offset_upt_Suc:
  "map (\<lambda>i. c + int i) [0..<Suc n] = c # map (\<lambda>i. c + 1 + int i) [0..<n]"
  by (induction n) (simp_all add: algebra_simps)

lemma offset_upt_add:
  "map (\<lambda>i. c + int i) [0..<k + n] =
     map (\<lambda>i. c + int i) [0..<k] @ map (\<lambda>i. c + int k + int i) [0..<n]"
  by (induction n) (simp_all add: algebra_simps)

lemma chunk_page_index:
  "map chunk_index (fst (chunk_page pn ts chunks ci)) =
     map chunk_index chunks @ map (\<lambda>i. ci + int i) [0..<length (kept ts)]"
proof (induction ts arbitrary: chunks ci)
  case Nil
  show ?case by (simp add: kept_def)
next
  case (Cons t ts)
  show ?case
  proof (cases "strip t = []")
    case True
    then show ?thesis using Cons.IH[of chunks ci] by (simp add: kept_def)
  next
    case False
    let ?c = "\<lparr>page_number = pn, content = strip t, chunk_index = ci\<rparr>"
    have k: "length (kept (t # ts)) = Suc (length (kept ts))"
      using False by (simp add: kept_def)
    have "map chunk_index (fst (chunk_page pn (t # ts) chunks ci)) =
            map chunk_index (fst (chunk_page pn ts (chunks @ [?c]) (ci + 1)))"
      using False by simp
    also have "\<dots> = map chunk_index (chunks @ [?c]) @
                      map (\<lambda>i. ci + 1 + int i) [0..<length (kept ts)]"
      by (rule Cons.IH)
    also have "\<dots> = map chunk_index chunks @
                      (ci # map (\<lambda>i. ci + 1 + int i) [0..<length (kept ts)])"
      by simp
    also have "\<dots> = map chunk_index chunks @
                      map (\<lambda>i. ci + int i) [0..<length (kept (t # ts))]"
      by (simp only: k offset_upt_Suc)
    finally show ?thesis .
  qed
qed

lemma chunk_pages_attributed:
  "map attributed (fst (chunk_pages sp ps chunks ci)) =
     map attributed chunks @ pieces sp ps"
proof (induction ps arbitrary: chunks ci)
  case Nil
  show ?case by (simp add: pieces_def)
next
  case (Cons p ps)
  obtain chunks' ci' where
    step: "chunk_page (page_number p) (sp (page_text p)) chunks ci = (chunks', ci')"
    by (cases "chunk_page (page_number p) (sp (page_text p)) chunks ci")
  have "map attributed chunks' =
          map attributed chunks @ map (\<lambda>s. (page_number p, s)) (kept (sp (page_text p)))"
    using chunk_page_attributed[of "page_number p" "sp (page_text p)" chunks ci] step by simp
  then show ?case using Cons.IH[of chunks' ci'] step by (simp add: pieces_def)
qed

lemma chunk_pages_index:
  "map chunk_index (fst (chunk_pages sp ps chunks ci)) =
     map chunk_index chunks @ map (\<lambda>i. ci + int i) [0..<length (pieces sp ps)]"
proof (induction ps arbitrary: chunks ci)
  case Nil
  show ?case by (simp add: pieces_def)
next
  case (Cons p ps)
  let ?k = "length (kept (sp (page_text p)))"
  let ?n = "length (pieces sp ps)"
  obtain chunks' ci' where
    step: "chunk_page (page_number p) (sp (page_text p)) chunks ci = (chunks', ci')"
    by (cases "chunk_page (page_number p) (sp (page_text p)) chunks ci")
  have idx: "map chunk_index chunks' =
               map chunk_index chunks @ map (\<lambda>i. ci + int i) [0..<?k]"
    using chunk_page_index[of "page_number p" "sp (page_text p)" chunks ci] step by simp
  have cnt: "ci' = ci + int ?k"
    using chunk_page_counter[of "page_number p" "sp (page_text p)" chunks ci] step by simp
  have len: "length (pieces sp (p # ps)) = ?k + ?n"
    by (simp add: pieces_def)
  have "map chunk_index (fst (chunk_pages sp (p # ps) chunks ci)) =
          map chunk_index (fst (chunk_pages sp ps chunks' ci'))"
    using step by simp
  also have "\<dots> = map chunk_index chunks' @ map (\<lambda>i. ci' + int i) [0..<?n]"
    by (rule Cons.IH)
  also have "\<dots> = map chunk_index chunks @
                    (map (\<lambda>i. ci + int i) [0..<?k] @
                     map (\<lambda>i. ci + int ?k + int i) [0..<?n])"
    by (simp only: idx cnt append_assoc)
  also have "\<dots> = map chunk_index chunks @
                    map (\<lambda>i. ci + int i) [0..<length (pieces sp (p # ps))]"
    by (simp only: len offset_upt_add)
  finally show ?case .
qed

lemma length_pieces:
  "length (pieces sp ps) =
     length (filter (\<lambda>t. strip t \<noteq> []) (concat (map (\<lambda>p. sp (page_text p)) ps)))"
  by (induction ps) (simp_all add: pieces_def kept_def filter_map o_def)

lemma chunk_text_attributed: "map attributed (chunk_text sp pages) = pieces sp pages"
  using chunk_pages_attributed[of sp pages "[]" 0] by (simp add: chunk_text_def)

lemma chunk_text_index:
  "map chunk_index (chunk_text sp pages) = map int [0..<length (pieces sp pages)]"
  using chunk_pages_index[of sp pages "[]" 0] by (simp add: chunk_text_def)

lemma length_chunk_text: "length (chunk_text sp pages) = length (pieces sp pages)"
  using arg_cong[OF chunk_text_attributed[of sp pages], of length] by simp

lemma alt_chunk_text_eq: "alt_chunk_text sp pages = chunk_text sp pages"
  by (simp add: alt_chunk_text_def chunk_text_def)

text \<open>
  C5. For every list of pages (and every splitter), the \<open>chunk_index\<close> values of the
  emitted chunks are exactly \<open>0, 1, ..., N - 1\<close> in emission order, where \<open>N\<close> is the
  number of emitted chunks: the counter runs across the whole document and is not reset
  at a page. \<open>N\<close> is the number of pieces, over all pages, that are not empty after
  \<open>strip\<close>: a piece that is empty after trimming is dropped and takes no index.
\<close>

theorem chunk_index_contiguous:
  "map chunk_index (chunk_text split_text pages) =
     map int [0..<length (chunk_text split_text pages)]
   \<and> length (chunk_text split_text pages) =
     length (filter (\<lambda>t. strip t \<noteq> [])
               (concat (map (\<lambda>p. split_text (page_text p)) pages)))"
  by (simp add: chunk_text_index length_chunk_text length_pieces)

text \<open>
  C6. For every list of pages, the emitted chunks are, page after page and in order, the
  stripped non-empty pieces that the splitter returns for that page's own text, each
  carrying that page's \<open>page_number\<close>. The splitter is called on one page's text at a
  time, so the content of a chunk (its overlap with the previous chunk included) is drawn
  from a single page, the one whose number it carries. Both copies of \<open>chunk_text\<close>
  behave so.
\<close>

theorem chunk_page_attribution:
  "map attributed (chunk_text split_text pages) =
     concat (map (\<lambda>p. map (\<lambda>s. (page_number p, s)) (kept (split_text (page_text p)))) pages)
   \<and> map attributed (alt_chunk_text split_text pages) =
     concat (map (\<lambda>p. map (\<lambda>s. (page_number p, s)) (kept (split_text (page_text p)))) pages)"
  by (simp add: alt_chunk_text_eq chunk_text_attributed pieces_def)

section \<open>Properties of the citation list\<close>

lemma of_char_digit: "d < 10 \<Longrightarrow> of_char (digit d) = 48 + d"
proof -
  assume "d < 10"
  then have "d \<in> {0, 1, 2, 3, 4, 5, 6, 7, 8, 9}" by auto
  then show ?thesis by (auto simp add: digit_def)
qed

lemma digits_range: "c \<in> set (digits n) \<Longrightarrow> 48 \<le> (of_char c :: nat) \<and> (of_char c :: nat) \<le> 57"
proof (induction n rule: digits.induct)
  case (1 n)
  show ?case
  proof (cases "n < 10")
    case True
    with "1.prems" have "c = digit n" by (simp add: digits.simps[of n])
    with True show ?thesis by (simp add: of_char_digit)
  next
    case False
    with "1.prems" have "c \<in> set (digits (n div 10)) \<or> c = digit (n mod 10)"
      by (auto simp add: digits.simps[of n])
    then show ?thesis
    proof
      assume "c \<in> set (digits (n div 10))"
      with False "1.IH" show ?thesis by simp
    next
      assume "c = digit (n mod 10)"
      then show ?thesis by (simp add: of_char_digit)
    qed
  qed
qed

lemma undigits_digits: "undigits (digits n) = n"
proof (induction n rule: digits.induct)
  case (1 n)
  show ?case
  proof (cases "n < 10")
    case True
    then show ?thesis by (simp add: digits.simps[of n] undigits_def of_char_digit)
  next
    case False
    then have "undigits (digits (n div 10)) = n div 10" using "1.IH" by simp
    then show ?thesis
      using False by (simp add: digits.simps[of n] undigits_def of_char_digit)
  qed
qed

lemma digits_nonempty: "digits n \<noteq> []"
  by (simp add: digits.simps[of n])


lemma digits_inj: "digits m = digits n \<Longrightarrow> m = n"
proof -
  assume "digits m = digits n"
  then have "undigits (digits m) = undigits (digits n)" by (rule arg_cong)
  then show "m = n" by (simp only: undigits_digits)
qed

lemma digits_no_minus: "CHR ''-'' \<notin> set (digits n)"
proof
  assume "CHR ''-'' \<in> set (digits n)"
  then have "48 \<le> (of_char (CHR ''-'') :: nat)" using digits_range by blast
  then show False by simp
qed

lemma digits_no_underscore: "CHR ''_'' \<notin> set (digits n)"
proof
  assume "CHR ''_'' \<in> set (digits n)"
  then have "(of_char (CHR ''_'') :: nat) \<le> 57" using digits_range by blast
  then show False by simp
qed

lemma str_int_no_underscore: "CHR ''_'' \<notin> set (str_int i)"
  by (simp add: str_int_def digits_no_underscore)

lemma str_int_inj: "str_int i = str_int j \<Longrightarrow> i = j"
proof -
  assume eq: "str_int i = str_int j"
  have hd_digit: "hd (digits n) \<noteq> CHR ''-''" for n
    using digits_no_minus[of n] digits_nonempty[of n] by (cases "digits n") auto
  consider "i < 0" "j < 0" | "i < 0" "0 \<le> j" | "0 \<le> i" "j < 0" | "0 \<le> i" "0 \<le> j"
    by linarith
  then show ?thesis
  proof cases
    case 1
    with eq have "digits (nat (- i)) = digits (nat (- j))" by (simp add: str_int_def)
    then have "nat (- i) = nat (- j)" by (rule digits_inj)
    with 1 show ?thesis by simp
  next
    case 2
    with eq have "CHR ''-'' # digits (nat (- i)) = digits (nat j)" by (simp add: str_int_def)
    then have "hd (digits (nat j)) = CHR ''-''" by (metis list.sel(1))
    with hd_digit show ?thesis by blast
  next
    case 3
    with eq have "digits (nat i) = CHR ''-'' # digits (nat (- j))" by (simp add: str_int_def)
    then have "hd (digits (nat i)) = CHR ''-''" by simp
    with hd_digit show ?thesis by blast
  next
    case 4
    with eq have "digits (nat i) = digits (nat j)" by (simp add: str_int_def)
    then have "nat i = nat j" by (rule digits_inj)
    with 4 show ?thesis by simp
  qed
qed

lemma split_at_last:
  assumes "x \<notin> set s1" "x \<notin> set s2" "t1 @ x # s1 = t2 @ x # s2"
  shows "t1 = t2 \<and> s1 = s2"
proof -
  from assms(3) have "rev s1 @ x # rev t1 = rev s2 @ x # rev t2"
    by (metis rev.simps(2) rev_append append_assoc append_Cons append_Nil)
  moreover have "takeWhile (\<lambda>y. y \<noteq> x) (rev s @ x # r) = rev s" if "x \<notin> set s" for s r
    using that by (simp add: takeWhile_tail) (metis set_rev takeWhile_eq_all_conv)
  ultimately have "rev s1 = rev s2" using assms(1,2) by metis
  then have "s1 = s2" by simp
  with assms(3) show ?thesis by simp
qed

lemma source_key_inj:
  "source_key t1 p1 = source_key t2 p2 \<Longrightarrow> t1 = t2 \<and> p1 = p2"
  unfolding source_key_def
  using split_at_last[of "CHR ''_''" "str_int p1" "str_int p2" t1 t2]
    str_int_no_underscore str_int_inj by auto

lemma extract_sources_loop_eq:
  "seen = (\<lambda>(t, p). source_key t p) ` S \<Longrightarrow>
   map pair_of (extract_sources_loop cs sources seen) =
     map pair_of sources @ filter (\<lambda>x. x \<notin> S) (first_occurrences (map cited cs))"
proof (induction cs arbitrary: sources seen S)
  case Nil
  show ?case by simp
next
  case (Cons c cs)
  let ?x = "cited c"
  let ?k = "source_key (paper_title c) (page_number c)"
  have mem: "?k \<in> seen \<longleftrightarrow> ?x \<in> S"
    using Cons.prems source_key_inj by (force simp add: cited_def)
  show ?case
  proof (cases "?x \<in> S")
    case True
    have "filter (\<lambda>y. y \<notin> S) (filter (\<lambda>y. y \<noteq> ?x) ys) = filter (\<lambda>y. y \<notin> S) ys" for ys
      using True by (induction ys) auto
    then show ?thesis
      using True mem Cons.IH[OF Cons.prems, of sources] by simp
  next
    case False
    let ?s = "\<lparr>paper = paper_title c, page = page_number c\<rparr>"
    have seen': "insert ?k seen = (\<lambda>(t, p). source_key t p) ` (insert ?x S)"
      using Cons.prems by (simp add: cited_def)
    have flt: "filter (\<lambda>y. y \<notin> S) (filter (\<lambda>y. y \<noteq> ?x) ys) = filter (\<lambda>y. y \<notin> insert ?x S) ys" for ys
      by (induction ys) auto
    have "pair_of ?s = ?x" by (simp add: pair_of_def cited_def)
    then show ?thesis
      using False mem Cons.IH[OF seen', of "sources @ [?s]"] by (simp add: flt)
  qed
qed

lemma set_first_occurrences: "set (first_occurrences xs) = set xs"
  by (induction xs) auto

lemma distinct_first_occurrences: "distinct (first_occurrences xs)"
  by (induction xs) (simp_all add: set_first_occurrences)

lemma extract_sources_eq:
  "map pair_of (extract_sources chunks) = first_occurrences (map cited chunks)"
  using extract_sources_loop_eq[of "{}" "{}" chunks "[]"] by (simp add: extract_sources_def)

text \<open>
  C7. For every list of retrieved chunks, \<open>_extract_sources\<close> returns the (paper, page)
  pairs of the chunks with each distinct pair exactly once, in the order of first
  occurrence: the key \<open>f"{paper_title}_{page_number}"\<close> identifies the pair, because the
  digits of the page number hold no underscore. In particular the pairs
  (PaperA,1), (PaperA,1), (PaperA,2), (PaperB,1) give (PaperA,1), (PaperA,2), (PaperB,1).
\<close>

theorem extract_sources_first_occurrence:
  "map pair_of (extract_sources chunks) = first_occurrences (map cited chunks)
   \<and> distinct (map pair_of (extract_sources chunks))
   \<and> set (map pair_of (extract_sources chunks)) = set (map cited chunks)
   \<and> (map cited chunks =
          [(''PaperA'', 1), (''PaperA'', 1), (''PaperA'', 2), (''PaperB'', 1)] \<longrightarrow>
        map pair_of (extract_sources chunks) =
          [(''PaperA'', 1), (''PaperA'', 2), (''PaperB'', 1)])"
  by (simp add: extract_sources_eq distinct_first_occurrences set_first_occurrences)

theorem extract_sources_first_occurrence_witness:
  "map pair_of (extract_sources
     [\<lparr>page_number = 1, content = ''alpha'', chunk_index = 0,
        paper_id = ''id-a'', paper_title = ''PaperA'', user_id = ''u1''\<rparr>,
      \<lparr>page_number = 1, content = ''beta'', chunk_index = 1,
        paper_id = ''id-a'', paper_title = ''PaperA'', user_id = ''u1''\<rparr>,
      \<lparr>page_number = 2, content = ''gamma'', chunk_index = 2,
        paper_id = ''id-a'', paper_title = ''PaperA'', user_id = ''u1''\<rparr>,
      \<lparr>page_number = 1, content = ''delta'', chunk_index = 0,
        paper_id = ''id-b'', paper_title = ''PaperB'', user_id = ''u1''\<rparr>])
   = [(''PaperA'', 1), (''PaperA'', 2), (''PaperB'', 1)]"
  using extract_sources_first_occurrence[of
     "[\<lparr>page_number = 1, content = ''alpha'', chunk_index = 0,
        paper_id = ''id-a'', paper_title = ''PaperA'', user_id = ''u1''\<rparr>,
      \<lparr>page_number = 1, content = ''beta'', chunk_index = 1,
        paper_id = ''id-a'', paper_title = ''PaperA'', user_id = ''u1''\<rparr>,
      \<lparr>page_number = 2, content = ''gamma'', chunk_index = 2,
        paper_id = ''id-a'', paper_title = ''PaperA'', user_id = ''u1''\<rparr>,
      \<lparr>page_number = 1, content = ''delta'', chunk_index = 0,
        paper_id = ''id-b'', paper_title = ''PaperB'', user_id = ''u1''\<rparr>]"]
  by (simp add: cited_def)

section \<open>Properties of the retriever\<close>

lemma matching_sound:
  "matching ok db cls flt = Inr objs \<Longrightarrow>
   objs = filter (\<lambda>(obj, v). matches flt obj) (objects db cls)"
  by (auto simp add: matching_def objects_def split: if_splits option.splits)

lemma matching_unavailable: "matching False db cls flt = Inl (StoreUnavailableError ''query'')"
  by (simp add: matching_def)

lemma get_near_vector_sound:
  assumes "get_near_vector ok dist db cls q flt limit = Inr items"
    and "(obj, d) \<in> set items"
  shows "matches flt obj \<and> (\<exists>v. (obj, v) \<in> set (objects db cls) \<and> d = dist q v)"
proof -
  from assms(1) obtain objs where m: "matching ok db cls flt = Inr objs"
    and items: "items = take limit (map (\<lambda>(obj, v). (obj, dist q v))
                                 (sort_key (\<lambda>(obj, v). dist q v) objs))"
    by (auto simp add: get_near_vector_def split: sum.splits)
  from assms(2) items have "(obj, d) \<in> set (map (\<lambda>(obj, v). (obj, dist q v))
                                 (sort_key (\<lambda>(obj, v). dist q v) objs))"
    using set_take_subset by fastforce
  then obtain v where "(obj, v) \<in> set objs" and d: "d = dist q v"
    by auto
  with matching_sound[OF m] show ?thesis by auto
qed

lemma matches_user: "matches (Equal ''user_id'' uid) obj \<longleftrightarrow> user_id obj = uid"
  by (simp add: text_property_def)

lemma matches_paper_user:
  "matches (And [Equal ''paper_id'' pid, Equal ''user_id'' uid]) obj \<longleftrightarrow>
     paper_id obj = pid \<and> user_id obj = uid"
  by (simp add: text_property_def)

lemma near_vector_isolation:
  assumes "c \<in> set (near_users dist ok db q uid top_k)"
  shows "user_id c = uid \<and>
         (\<exists>obj v d. (obj, v) \<in> set (objects db ''PaperChunk'') \<and> user_id obj = uid \<and>
                    c = retrieved d obj)"
proof (cases "get_near_vector ok dist db ''PaperChunk'' q (Equal ''user_id'' uid) top_k")
  case (Inl e)
  with assms show ?thesis by (simp add: near_users_def)
next
  case (Inr items)
  with assms obtain obj d where mem: "(obj, d) \<in> set items" and c: "c = retrieved (Some d) obj"
    by (auto simp add: near_users_def)
  from get_near_vector_sound[OF Inr mem] obtain v where
    u: "user_id obj = uid" and st: "(obj, v) \<in> set (objects db ''PaperChunk'')"
    by (auto simp add: text_property_def)
  from c u have "user_id c = uid" by (simp add: retrieved_def)
  moreover from st u c have "\<exists>obj v d. (obj, v) \<in> set (objects db ''PaperChunk'') \<and>
      user_id obj = uid \<and> c = retrieved d obj" by blast
  ultimately show ?thesis by simp
qed

lemma retrieve_relevant_chunks_near:
  "retrieve_relevant_chunks embed_query dist ok db query uid top_k =
     (case embed_query query of Inl e \<Rightarrow> [] | Inr q \<Rightarrow> near_users dist ok db q uid top_k)"
  by (simp add: retrieve_relevant_chunks_def near_users_def split: sum.splits)

lemma search_similar_chunks_near:
  "search_similar_chunks embed_query dist ok db chunk_content uid top_k =
     (case embed_query chunk_content of Inl e \<Rightarrow> [] | Inr q \<Rightarrow> near_users dist ok db q uid top_k)"
  by (simp add: search_similar_chunks_def near_users_def split: sum.splits)

text \<open>
  C1. For every store, query, user and limit, every chunk that
  \<open>retrieve_relevant_chunks\<close> or \<open>search_similar_chunks\<close> returns carries the
  \<open>user_id\<close> of the request and is the copy of a stored object of that user: no chunk
  of another user appears in the result.
\<close>

theorem retrieval_user_isolation:
  "(\<forall>c \<in> set (retrieve_relevant_chunks embed_query dist ok db query uid top_k).
      user_id c = uid \<and>
      (\<exists>obj v d. (obj, v) \<in> set (objects db ''PaperChunk'') \<and> user_id obj = uid \<and>
                  c = retrieved d obj))
   \<and> (\<forall>c \<in> set (search_similar_chunks embed_query dist ok db chunk_content uid top_k).
      user_id c = uid \<and>
      (\<exists>obj v d. (obj, v) \<in> set (objects db ''PaperChunk'') \<and> user_id obj = uid \<and>
                  c = retrieved d obj))"
proof (rule conjI; rule ballI)
  fix c
  assume "c \<in> set (retrieve_relevant_chunks embed_query dist ok db query uid top_k)"
  then obtain q where "c \<in> set (near_users dist ok db q uid top_k)"
    by (cases "embed_query query") (simp_all add: retrieve_relevant_chunks_near)
  then show "user_id c = uid \<and>
      (\<exists>obj v d. (obj, v) \<in> set (objects db ''PaperChunk'') \<and> user_id obj = uid \<and>
                  c = retrieved d obj)"
    by (rule near_vector_isolation)
next
  fix c
  assume "c \<in> set (search_similar_chunks embed_query dist ok db chunk_content uid top_k)"
  then obtain q where "c \<in> set (near_users dist ok db q uid top_k)"
    by (cases "embed_query chunk_content") (simp_all add: search_similar_chunks_near)
  then show "user_id c = uid \<and>
      (\<exists>obj v d. (obj, v) \<in> set (objects db ''PaperChunk'') \<and> user_id obj = uid \<and>
                  c = retrieved d obj)"
    by (rule near_vector_isolation)
qed

theorem retrieval_user_isolation_witness:
  "map (\<lambda>c. (user_id c, content c))
     (retrieve_relevant_chunks embed_zero gap True small_store ''q'' ''u1'' 5) =
     [(''u1'', ''c-text''), (''u1'', ''a-text'')]
   \<and> list_all (\<lambda>c. user_id c = ''u1'')
        (retrieve_relevant_chunks embed_zero gap True small_store ''q'' ''u1'' 5)
   \<and> list_all (\<lambda>c. user_id c = ''u1'')
        (search_similar_chunks embed_zero gap True small_store ''a-text'' ''u1'' 3)"
  using retrieval_user_isolation[of embed_zero gap True small_store "''q''" "''u1''" 5 "''a-text''"]
  by (simp add: retrieve_relevant_chunks_def search_similar_chunks_def get_near_vector_def
      matching_def small_store_def gap_def embed_zero_def text_property_def retrieved_def)

lemma failure_returns_empty:
  "retrieve_relevant_chunks embed_query dist False db query uid top_k = []"
  "retrieve_by_paper_id False db pid uid top_k = []"
  "search_similar_chunks embed_query dist False db chunk_content uid top_k = []"
  "get_user_papers False db uid = []"
  by (simp_all add: retrieve_relevant_chunks_def retrieve_by_paper_id_def
      search_similar_chunks_def get_user_papers_def get_near_vector_def get_where_def
      matching_def split: sum.splits)

lemma empty_store_returns_empty:
  "retrieve_relevant_chunks embed_query dist True [''PaperChunk'' \<mapsto> []] query uid top_k = []"
  "retrieve_by_paper_id True [''PaperChunk'' \<mapsto> []] pid uid top_k = []"
  "search_similar_chunks embed_query dist True [''PaperChunk'' \<mapsto> []] chunk_content uid top_k = []"
  by (simp_all add: retrieve_relevant_chunks_def retrieve_by_paper_id_def
      search_similar_chunks_def get_near_vector_def get_where_def
      matching_def split: sum.splits)

text \<open>
  C2 (as the code has it). A backend failure never reaches the caller: when the
  backend does not answer, \<open>retrieve_relevant_chunks\<close>, \<open>retrieve_by_paper_id\<close> and
  \<open>search_similar_chunks\<close> return the empty list, which is also what they return on
  an empty store, so the caller cannot tell the two apart.
\<close>

theorem backend_failure_indistinguishable:
  "retrieve_relevant_chunks embed_query dist False db query uid top_k = []
   \<and> retrieve_relevant_chunks embed_query dist True [''PaperChunk'' \<mapsto> []] query uid top_k = []
   \<and> retrieve_by_paper_id False db pid uid top_k = ([] :: 'd retrieved_chunk list)
   \<and> retrieve_by_paper_id True [''PaperChunk'' \<mapsto> []] pid uid top_k = ([] :: 'd retrieved_chunk list)
   \<and> search_similar_chunks embed_query dist False db chunk_content uid top_k = []
   \<and> search_similar_chunks embed_query dist True [''PaperChunk'' \<mapsto> []] chunk_content uid top_k = []"
  by (simp add: failure_returns_empty empty_store_returns_empty)

text \<open>
  C2 as stated fails: on \<open>small_store\<close> the search for user \<open>u1\<close> finds chunks, and
  with the backend down the same call returns \<open>[]\<close> and no error, exactly the result
  of the call on an empty store.
\<close>

theorem backend_failure_surfaced_counterexample:
  "retrieve_relevant_chunks embed_zero gap True small_store ''q'' ''u1'' 5 \<noteq> []
   \<and> retrieve_relevant_chunks embed_zero gap False small_store ''q'' ''u1'' 5 = []
   \<and> retrieve_relevant_chunks embed_zero gap False small_store ''q'' ''u1'' 5 =
       retrieve_relevant_chunks embed_zero gap True [''PaperChunk'' \<mapsto> []] ''q'' ''u1'' 5"
  by (simp add: retrieve_relevant_chunks_def get_near_vector_def
      matching_def small_store_def gap_def embed_zero_def text_property_def retrieved_def)

lemma user_papers_loop_eq:
  "map info_paper_id (user_papers_loop items papers seen) =
     map info_paper_id papers @
     filter (\<lambda>x. x \<notin> seen) (first_occurrences (map paper_id items))"
proof (induction items arbitrary: papers seen)
  case Nil
  show ?case by simp
next
  case (Cons item items)
  show ?case
  proof (cases "paper_id item \<in> seen")
    case True
    have "filter (\<lambda>y. y \<notin> seen) (filter (\<lambda>y. y \<noteq> paper_id item) ys) =
            filter (\<lambda>y. y \<notin> seen) ys" for ys
      using True by (induction ys) auto
    then show ?thesis using True Cons.IH[of papers seen] by simp
  next
    case False
    have "filter (\<lambda>y. y \<notin> seen) (filter (\<lambda>y. y \<noteq> paper_id item) ys) =
            filter (\<lambda>y. y \<notin> insert (paper_id item) seen) ys" for ys
      by (induction ys) auto
    then show ?thesis using False Cons.IH by simp
  qed
qed

lemma get_where_ok:
  "get_where True db cls flt limit = Inr items \<Longrightarrow>
   items = take limit (map fst (filter (\<lambda>(obj, v). matches flt obj) (objects db cls)))"
  by (auto simp add: get_where_def matching_def objects_def split: option.splits)

lemma get_user_papers_window:
  "get_user_papers True db uid =
     user_papers_loop
       (take 1000 (map fst (filter (\<lambda>(obj, v). user_id obj = uid) (objects db ''PaperChunk''))))
       [] {}"
  by (simp add: get_user_papers_def get_where_def matching_def objects_def text_property_def
      split: option.splits)

lemma first_occurrences_replicate: "first_occurrences (replicate (Suc n) x) = [x]"
  by (induction n) simp_all

lemma big_store_objects:
  "objects big_store ''PaperChunk'' = replicate 1000 (first_chunk, 0) @ [(late_chunk, 0)]"
  by (simp add: big_store_def objects_def)

lemma big_store_user:
  "filter (\<lambda>(obj, v). user_id obj = ''u1'') (objects big_store ''PaperChunk'') =
     replicate 1000 (first_chunk, 0) @ [(late_chunk, 0)]"
  by (simp add: big_store_objects first_chunk_def late_chunk_def)

lemma big_store_listing: "map info_paper_id (get_user_papers True big_store ''u1'') = [''paper-1'']"
proof -
  have "take 1000 (map fst (replicate 1000 (first_chunk, 0::int) @ [(late_chunk, 0)])) =
          replicate (Suc 999) first_chunk"
    by simp
  then have "map info_paper_id (get_user_papers True big_store ''u1'') =
          first_occurrences (map paper_id (replicate (Suc 999) first_chunk))"
    by (simp only: get_user_papers_window big_store_user user_papers_loop_eq)
       simp
  then show ?thesis
    by (simp only: map_replicate first_occurrences_replicate) (simp add: first_chunk_def)
qed

lemma big_store_late:
  "map paper_id (retrieve_by_paper_id True big_store ''paper-2'' ''u1'' 10) = [''paper-2'']"
proof -
  have "filter (\<lambda>(obj, v). matches (And [Equal ''paper_id'' ''paper-2'', Equal ''user_id'' ''u1'']) obj)
          (replicate 1000 (first_chunk, 0::int) @ [(late_chunk, 0)]) = [(late_chunk, 0)]"
    by (simp add: text_property_def first_chunk_def late_chunk_def)
  then show ?thesis
    by (simp add: retrieve_by_paper_id_def get_where_def matching_def big_store_def
        retrieved_def late_chunk_def)
qed

text \<open>
  C10. \<open>get_user_papers\<close> builds its list from the first 1000 objects that match the
  \<open>user_id\<close> filter and from nothing else. On \<open>big_store\<close> user \<open>u1\<close> owns 1001 chunks;
  the chunk of \<open>paper-2\<close> is stored and \<open>retrieve_by_paper_id\<close> returns it, but it lies
  behind the first 1000 matches and the listing is \<open>paper-1\<close> alone.
\<close>

theorem user_papers_first_thousand:
  "get_user_papers True db uid =
     user_papers_loop
       (take 1000 (map fst (filter (\<lambda>(obj, v). user_id obj = uid) (objects db ''PaperChunk''))))
       [] {}
   \<and> length (filter (\<lambda>(obj, v). user_id obj = ''u1'') (objects big_store ''PaperChunk'')) = 1001
   \<and> (late_chunk, 0) \<in> set (objects big_store ''PaperChunk'')
   \<and> map info_paper_id (get_user_papers True big_store ''u1'') = [''paper-1'']
   \<and> map paper_id (retrieve_by_paper_id True big_store ''paper-2'' ''u1'' 10) = [''paper-2'']"
proof -
  have "length (filter (\<lambda>(obj, v). user_id obj = ''u1'') (objects big_store ''PaperChunk'')) = 1001"
    by (simp only: big_store_user) simp
  moreover have "(late_chunk, 0) \<in> set (objects big_store ''PaperChunk'')"
    by (simp add: big_store_objects)
  ultimately show ?thesis
    using get_user_papers_window[of db uid] big_store_listing big_store_late by simp
qed

section \<open>Properties of ingestion\<close>

lemma objects_append_objects [simp]:
  "objects (append_objects db objs) ''PaperChunk'' = objects db ''PaperChunk'' @ objs"
  by (simp add: append_objects_def objects_def)

lemma append_objects_append:
  "append_objects (append_objects db xs) ys = append_objects db (xs @ ys)"
  by (auto simp add: append_objects_def objects_def)

lemma append_objects_Nil [simp]: "append_objects db [] = db"
  by (simp add: append_objects_def)

lemma send_batch_ok: "send_batch True db objs = Inr (append_objects db objs)"
  by (simp add: send_batch_def append_objects_def)

lemma add_data_objects_all:
  "\<forall>c \<in> set cs. \<exists>v. embed_query (content c) = Inr v \<Longrightarrow>
   add_data_objects embed_query pid title uid date cs pending =
     (pending @ map (stored embed_query pid title uid date) cs, None)"
proof (induction cs arbitrary: pending)
  case Nil
  show ?case by simp
next
  case (Cons c cs)
  from Cons.prems obtain v where v: "embed_query (content c) = Inr v" by auto
  from Cons.prems have rest: "\<forall>c \<in> set cs. \<exists>v. embed_query (content c) = Inr v" by simp
  show ?case using v Cons.IH[OF rest] by (simp add: stored_def)
qed


lemma store_batch_success:
  assumes "\<forall>c \<in> set batch. \<exists>v. embed_query (content c) = Inr v" and "ok"
  shows "store_batch embed_query pid title uid date exit_flushes ok batch db =
           (append_objects db (map (stored embed_query pid title uid date) batch), Inr ())"
  using assms by (simp add: store_batch_def add_data_objects_all send_batch_ok)

lemma store_chunks_loop_full_batch:
  assumes "length batch = 50"
    and "\<forall>c \<in> set batch. \<exists>v. embed_query (content c) = Inr v"
    and "up i"
  shows "store_chunks_loop embed_query pid title uid date exit_flushes up i (batch @ rest) db =
         store_chunks_loop embed_query pid title uid date exit_flushes up (i + 50) rest
           (append_objects db (map (stored embed_query pid title uid date) batch))"
proof -
  from assms(1) have ne: "batch @ rest \<noteq> []" by auto
  from assms(1) have tk: "take 50 (batch @ rest) = batch" and dr: "drop 50 (batch @ rest) = rest"
    by simp_all
  show ?thesis
    by (subst store_chunks_loop.simps)
       (simp only: ne tk dr if_False store_batch_success[OF assms(2,3)] prod.case sum.case)
qed

lemma store_chunks_loop_prefix:
  assumes "length done = 50 * b"
    and "\<forall>c \<in> set done. \<exists>v. embed_query (content c) = Inr v"
    and "\<forall>j < b. up (i + 50 * j)"
  shows "store_chunks_loop embed_query pid title uid date exit_flushes up i (done @ rest) db =
         store_chunks_loop embed_query pid title uid date exit_flushes up (i + 50 * b) rest
           (append_objects db (map (stored embed_query pid title uid date) done))"
  using assms
proof (induction b arbitrary: "done" i db)
  case 0
  then show ?case by simp
next
  case (Suc b)
  let ?batch = "take 50 done" and ?tail = "drop 50 done"
  from Suc.prems(1) have lb: "length ?batch = 50" and lt: "length ?tail = 50 * b"
    by simp_all
  have split: "done = ?batch @ ?tail" by simp
  from Suc.prems(2) have eb: "\<forall>c \<in> set ?batch. \<exists>v. embed_query (content c) = Inr v"
    and et: "\<forall>c \<in> set ?tail. \<exists>v. embed_query (content c) = Inr v"
    by (meson in_set_takeD, meson in_set_dropD)
  from Suc.prems(3) have up0: "up i" and upt: "\<forall>j < b. up (i + 50 + 50 * j)"
  proof -
    from Suc.prems(3) have "up (i + 50 * 0)" by blast
    then show "up i" by simp
    show "\<forall>j < b. up (i + 50 + 50 * j)"
    proof (intro allI impI)
      fix j assume "j < b"
      then have "Suc j < Suc b" by simp
      with Suc.prems(3) have "up (i + 50 * Suc j)" by blast
      then show "up (i + 50 + 50 * j)" by (simp add: algebra_simps)
    qed
  qed
  have "store_chunks_loop embed_query pid title uid date exit_flushes up i (done @ rest) db =
        store_chunks_loop embed_query pid title uid date exit_flushes up i (?batch @ (?tail @ rest)) db"
    by (metis append_assoc split)
  also have "\<dots> = store_chunks_loop embed_query pid title uid date exit_flushes up (i + 50)
                     (?tail @ rest)
                     (append_objects db (map (stored embed_query pid title uid date) ?batch))"
    by (rule store_chunks_loop_full_batch[where up = up and i = i, OF lb eb up0])
  also have "\<dots> = store_chunks_loop embed_query pid title uid date exit_flushes up (i + 50 + 50 * b)
                     rest
                     (append_objects
                        (append_objects db (map (stored embed_query pid title uid date) ?batch))
                        (map (stored embed_query pid title uid date) ?tail))"
    by (rule Suc.IH[where i = "i + 50", OF lt et upt])
  also have "\<dots> = store_chunks_loop embed_query pid title uid date exit_flushes up (i + 50 * Suc b)
                     rest
                     (append_objects db (map (stored embed_query pid title uid date) done))"
  proof -
    have "map (stored embed_query pid title uid date) ?batch @
          map (stored embed_query pid title uid date) ?tail =
          map (stored embed_query pid title uid date) done"
      by (metis map_append split)
    moreover have "i + 50 + 50 * b = i + 50 * Suc b" by simp
    ultimately show ?thesis by (simp only: append_objects_append)
  qed
  finally show ?case .
qed

lemma store_chunks_success:
  assumes "\<forall>c \<in> set chunks. \<exists>v. embed_query (content c) = Inr v" and "\<forall>i. up i"
  shows "store_chunks embed_query exit_flushes up chunks pid title uid date db =
           (append_objects db (map (stored embed_query pid title uid date) chunks), Inr ())"
proof -
  have "store_chunks_loop embed_query pid title uid date exit_flushes up i chunks db =
           (append_objects db (map (stored embed_query pid title uid date) chunks), Inr ())" for i
    using assms(1)
  proof (induction "length chunks" arbitrary: chunks i db rule: less_induct)
    case less
    show ?case
    proof (cases "chunks = []")
      case True
      then show ?thesis by (subst store_chunks_loop.simps) simp
    next
      case False
      from less.prems have eb: "\<forall>c \<in> set (take 50 chunks). \<exists>v. embed_query (content c) = Inr v"
        and et: "\<forall>c \<in> set (drop 50 chunks). \<exists>v. embed_query (content c) = Inr v"
        by (meson in_set_takeD, meson in_set_dropD)
      from False have "length (drop 50 chunks) < length chunks" by simp
      from less.hyps[OF this et] assms(2) False show ?thesis
        by (subst store_chunks_loop.simps)
           (simp add: store_batch_success[OF eb] append_objects_append
              map_append[symmetric] del: map_append)
    qed
  qed
  then show ?thesis by (simp add: store_chunks_def)
qed

lemma retrieve_by_paper_id_finds:
  assumes "(obj, v) \<in> set (objects db ''PaperChunk'')" "paper_id obj = pid" "user_id obj = uid"
  shows "(retrieved None obj :: 'd retrieved_chunk) \<in>
           set (retrieve_by_paper_id True db pid uid (length (objects db ''PaperChunk'')))"
proof -
  from assms(1) obtain objs where cls: "db ''PaperChunk'' = Some objs" and mem: "(obj, v) \<in> set objs"
    by (cases "db ''PaperChunk''") (auto simp add: objects_def)
  let ?m = "filter (\<lambda>(obj, v). matches (And [Equal ''paper_id'' pid, Equal ''user_id'' uid]) obj) objs"
  have "length (map fst ?m) \<le> length objs" by simp
  then have tk: "take (length objs) (map fst ?m) = map fst ?m" by simp
  have "obj \<in> set (map fst ?m)"
    using mem assms(2,3) by (force simp add: text_property_def)
  then have "(retrieved None obj :: 'd retrieved_chunk) \<in> retrieved None ` set (map fst ?m)" by (rule imageI)
  then have "(retrieved None obj :: 'd retrieved_chunk) \<in> set (map (retrieved None) (take (length objs) (map fst ?m)))"
    by (simp only: tk set_map)
  moreover have "retrieve_by_paper_id True db pid uid (length (objects db ''PaperChunk'')) =
      (map (retrieved None) (take (length objs) (map fst ?m)) :: 'd retrieved_chunk list)"
    using cls by (simp add: retrieve_by_paper_id_def get_where_def matching_def objects_def)
  ultimately show ?thesis by (simp only:)
qed

lemma ingest_pdf_store_chunks:
  "chunk_text split_text pages \<noteq> [] \<Longrightarrow>
   ingest_pdf embed_query exit_flushes up split_text pages pid title uid date db =
     (case store_chunks embed_query exit_flushes up (chunk_text split_text pages)
             pid title uid date db of
        (db', Inl e) \<Rightarrow> (db', Inl e)
      | (db', Inr u) \<Rightarrow> (db', Inr pid))"
proof -
  assume ne: "chunk_text split_text pages \<noteq> []"
  have "pages \<noteq> []"
  proof
    assume "pages = []"
    then have "chunk_text split_text pages = []" by (simp add: chunk_text_def)
    with ne show False by simp
  qed
  with ne show ?thesis by (simp add: ingest_pdf_def Let_def)
qed

lemma stored_paper_filter:
  "filter (\<lambda>(obj, v). paper_id obj = pid) (map (stored embed_query pid title uid date) cs) =
     map (stored embed_query pid title uid date) cs"
  by (induction cs) (simp_all add: stored_def data_object_of_def)

subsection \<open>A failing batch\<close>

lemma add_data_objects_stops:
  assumes "\<forall>x \<in> set pre. \<exists>v. embed_query (content x) = Inr v"
    and "embed_query (content c) = Inl e"
  shows "add_data_objects embed_query pid title uid date (pre @ c # post) pending =
           (pending @ map (stored embed_query pid title uid date) pre, Some e)"
  using assms(1)
proof (induction pre arbitrary: pending)
  case Nil
  show ?case using assms(2) by simp
next
  case (Cons x pre)
  from Cons.prems obtain v where v: "embed_query (content x) = Inr v" by auto
  from Cons.prems have rest: "\<forall>x \<in> set pre. \<exists>v. embed_query (content x) = Inr v" by simp
  show ?case using v Cons.IH[OF rest] by (simp add: stored_def)
qed

lemma store_batch_embedding_failure:
  assumes "\<forall>x \<in> set pre. \<exists>v. embed_query (content x) = Inr v"
    and "embed_query (content c) = Inl e"
  shows "store_batch embed_query pid title uid date exit_flushes ok (pre @ c # post) db =
           (if exit_flushes \<and> ok
            then append_objects db (map (stored embed_query pid title uid date) pre) else db,
            Inl (if exit_flushes \<and> pre \<noteq> [] \<and> \<not> ok
                 then StoreUnavailableError ''batch'' else e))"
  by (simp add: store_batch_def add_data_objects_stops[OF assms] send_batch_def
      append_objects_def)

lemma store_batch_rejected:
  assumes "\<forall>x \<in> set batch. \<exists>v. embed_query (content x) = Inr v"
    and "batch \<noteq> []" and "\<not> ok"
  shows "store_batch embed_query pid title uid date exit_flushes ok batch db =
           (db, Inl (StoreUnavailableError ''batch''))"
  using assms(2,3) by (simp add: store_batch_def add_data_objects_all[OF assms(1)] send_batch_def)

lemma store_chunks_loop_embedding_failure:
  assumes "length pre < 50"
    and "\<forall>x \<in> set pre. \<exists>v. embed_query (content x) = Inr v"
    and "embed_query (content c) = Inl e"
  shows "store_chunks_loop embed_query pid title uid date exit_flushes up i (pre @ c # post) db =
           (if exit_flushes \<and> up i
            then append_objects db (map (stored embed_query pid title uid date) pre) else db,
            Inl (if exit_flushes \<and> pre \<noteq> [] \<and> \<not> up i
                 then StoreUnavailableError ''batch'' else e))"
proof -
  from assms(1) have tk: "take 50 (pre @ c # post) = pre @ c # take (49 - length pre) post"
    by (simp add: take_Cons')
  have ne: "pre @ c # post \<noteq> []" by simp
  show ?thesis
    by (subst store_chunks_loop.simps)
       (simp only: ne tk if_False store_batch_embedding_failure[OF assms(2,3)] prod.case sum.case)
qed

lemma store_chunks_loop_rejected:
  assumes "rest \<noteq> []"
    and "\<forall>x \<in> set (take 50 rest). \<exists>v. embed_query (content x) = Inr v"
    and "\<not> up i"
  shows "store_chunks_loop embed_query pid title uid date exit_flushes up i rest db =
           (db, Inl (StoreUnavailableError ''batch''))"
proof -
  from assms(1) have ne: "take 50 rest \<noteq> []" by simp
  show ?thesis
    by (subst store_chunks_loop.simps)
       (simp only: assms(1) if_False store_batch_rejected[OF assms(2) ne assms(3)]
          prod.case sum.case)
qed

lemma stored_discoverable:
  assumes "objects db' ''PaperChunk'' = before @ map (stored embed_query pid title uid date) done @ extra"
    and "x \<in> set done"
  shows "(retrieved None (data_object_of pid title uid date x) :: 'd retrieved_chunk) \<in>
           set (retrieve_by_paper_id True db' pid uid (length (objects db' ''PaperChunk'')))"
proof -
  from assms have "stored embed_query pid title uid date x \<in> set (objects db' ''PaperChunk'')"
    by simp
  then have "(data_object_of pid title uid date x, projr (embed_query (content x)))
               \<in> set (objects db' ''PaperChunk'')"
    by (simp add: stored_def)
  then show ?thesis
    by (rule retrieve_by_paper_id_finds) (simp_all add: data_object_of_def)
qed

lemma fifty_one_pages_chunks: "chunk_text one_piece fifty_one_pages = good_chunks @ [bad_chunk]"
  by code_simp

lemma good_len: "length good_chunks = 50"
  by (simp add: good_chunks_def)

lemma good_chunks_embed: "\<forall>c \<in> set good_chunks. \<exists>v. fragile_embed (content c) = Inr v"
  by (simp add: good_chunks_def fragile_embed_def)

lemma good_chunks_embed_zero: "\<forall>c \<in> set good_chunks. \<exists>v. embed_zero (content c) = Inr v"
  by (simp add: embed_zero_def)

lemma failed_ingestion_eq:
  "failed_ingestion exit_flushes =
     (append_objects Map.empty
        (map (stored fragile_embed ''paper-9'' ''Paper'' ''u1'' ''2024-01-01'') good_chunks),
      Inl (EmbeddingError ''quota exceeded''))"
proof -
  let ?db = "append_objects Map.empty
        (map (stored fragile_embed ''paper-9'' ''Paper'' ''u1'' ''2024-01-01'') good_chunks)"
  have bad: "fragile_embed (content bad_chunk) = Inl (EmbeddingError ''quota exceeded'')"
    by (simp add: bad_chunk_def fragile_embed_def)
  have "store_chunks fragile_embed exit_flushes (\<lambda>i. True) (good_chunks @ [bad_chunk])
          ''paper-9'' ''Paper'' ''u1'' ''2024-01-01'' Map.empty =
        store_chunks_loop fragile_embed ''paper-9'' ''Paper'' ''u1'' ''2024-01-01'' exit_flushes
          (\<lambda>i. True) (0 + 50) ([] @ bad_chunk # []) ?db"
    unfolding store_chunks_def append_Nil
    by (rule store_chunks_loop_full_batch[where up = "\<lambda>i. True" and i = 0,
          OF good_len good_chunks_embed]) simp
  also have "\<dots> = (?db, Inl (EmbeddingError ''quota exceeded''))"
    by (subst store_chunks_loop_embedding_failure[where pre = "[]" and e = "EmbeddingError ''quota exceeded''"])
       (simp_all add: bad)
  finally show ?thesis
    by (simp add: failed_ingestion_def ingest_pdf_store_chunks fifty_one_pages_chunks)
qed

lemma store_chunks_after_prefix:
  assumes "length done = 50 * b"
    and "\<forall>x \<in> set done. \<exists>v. embed_query (content x) = Inr v"
    and "\<forall>j < b. up (50 * j)"
  shows "store_chunks embed_query exit_flushes up (done @ rest) pid title uid date db =
         store_chunks_loop embed_query pid title uid date exit_flushes up (50 * b) rest
           (append_objects db (map (stored embed_query pid title uid date) done))"
proof -
  from assms(3) have up0: "\<forall>j < b. up (0 + 50 * j)" by simp
  have "store_chunks_loop embed_query pid title uid date exit_flushes up 0 (done @ rest) db =
        store_chunks_loop embed_query pid title uid date exit_flushes up (0 + 50 * b) rest
           (append_objects db (map (stored embed_query pid title uid date) done))"
    by (rule store_chunks_loop_prefix[where up = up and i = 0, OF assms(1,2) up0])
  then show ?thesis by (simp only: store_chunks_def add_0)
qed

lemma ingest_pdf_embedding_failure:
  assumes "chunk_text split_text pages = done @ pre @ c # post"
    and "length done = 50 * b"
    and "\<forall>x \<in> set done. \<exists>v. embed_query (content x) = Inr v"
    and "\<forall>j < b. up (50 * j)"
    and "length pre < 50"
    and "\<forall>x \<in> set pre. \<exists>v. embed_query (content x) = Inr v"
    and "embed_query (content c) = Inl e"
  shows "ingest_pdf embed_query exit_flushes up split_text pages pid title uid date db =
           (if exit_flushes \<and> up (50 * b)
            then append_objects db (map (stored embed_query pid title uid date) (done @ pre))
            else append_objects db (map (stored embed_query pid title uid date) done),
            Inl (if exit_flushes \<and> pre \<noteq> [] \<and> \<not> up (50 * b)
                 then StoreUnavailableError ''batch'' else e))"
proof -
  from assms(1) have ne: "chunk_text split_text pages \<noteq> []" by simp
  have "store_chunks embed_query exit_flushes up (done @ pre @ c # post) pid title uid date db =
          (if exit_flushes \<and> up (50 * b)
            then append_objects (append_objects db (map (stored embed_query pid title uid date) done))
                   (map (stored embed_query pid title uid date) pre)
            else append_objects db (map (stored embed_query pid title uid date) done),
            Inl (if exit_flushes \<and> pre \<noteq> [] \<and> \<not> up (50 * b)
                 then StoreUnavailableError ''batch'' else e))"
    by (simp only: store_chunks_after_prefix[OF assms(2,3,4)]
        store_chunks_loop_embedding_failure[OF assms(5,6,7)])
  then show ?thesis
    by (simp only: ingest_pdf_store_chunks[OF ne] assms(1) prod.case sum.case
        append_objects_append map_append)
qed

lemma ingest_pdf_rejected:
  assumes "chunk_text split_text pages = done @ rest"
    and "length done = 50 * b"
    and "\<forall>x \<in> set done. \<exists>v. embed_query (content x) = Inr v"
    and "\<forall>j < b. up (50 * j)"
    and "rest \<noteq> []"
    and "\<forall>x \<in> set (take 50 rest). \<exists>v. embed_query (content x) = Inr v"
    and "\<not> up (50 * b)"
  shows "ingest_pdf embed_query exit_flushes up split_text pages pid title uid date db =
           (append_objects db (map (stored embed_query pid title uid date) done),
            Inl (StoreUnavailableError ''batch''))"
proof -
  from assms(1,5) have ne: "chunk_text split_text pages \<noteq> []" by simp
  have "store_chunks embed_query exit_flushes up (done @ rest) pid title uid date db =
          (append_objects db (map (stored embed_query pid title uid date) done),
            Inl (StoreUnavailableError ''batch''))"
    by (simp only: store_chunks_after_prefix[OF assms(2,3,4)]
        store_chunks_loop_rejected[where up = up and i = "50 * b", OF assms(5,6,7)])
  then show ?thesis
    by (simp only: ingest_pdf_store_chunks[OF ne] assms(1) prod.case sum.case)
qed

text \<open>
  C3 (as the code has it). Ingestion is not atomic. \<open>store_chunks\<close> sends the chunks in
  batches of 50 and nothing undoes a batch. Let the first \<open>b\<close> batches (the chunks \<open>done\<close>)
  have been stored. If the embedding of a chunk \<open>c\<close> of the next batch fails with the error
  \<open>e\<close>, after the chunks \<open>pre\<close> of that batch, then \<open>ingest_pdf\<close> ends with exactly \<open>e\<close>
  (with the error of the backend instead, when the client sends the pending objects \<open>pre\<close>
  on leaving the block and the backend rejects them). If every embedding of the next batch
  succeeds and the backend rejects the batch, \<open>ingest_pdf\<close> ends with the error of the
  backend. In both cases the \<open>50 * b\<close> chunks of the earlier batches stay in the store
  under the paper id of the ingestion, where \<open>retrieve_by_paper_id\<close> finds each of them;
  of the failing batch the store holds the chunks \<open>pre\<close> when the client sent them, and
  nothing otherwise.
\<close>

theorem ingestion_keeps_earlier_batches:
  assumes "length done = 50 * b"
    and "\<forall>x \<in> set done. \<exists>v. embed_query (content x) = Inr v"
    and "\<forall>j < b. up (50 * j)"
  shows "(chunk_text split_text pages = done @ pre @ c # post \<and> length pre < 50 \<and>
          (\<forall>x \<in> set pre. \<exists>v. embed_query (content x) = Inr v) \<and>
          embed_query (content c) = Inl e \<longrightarrow>
          (\<exists>db'. ingest_pdf embed_query exit_flushes up split_text pages pid title uid date db =
                   (db', Inl (if exit_flushes \<and> pre \<noteq> [] \<and> \<not> up (50 * b)
                              then StoreUnavailableError ''batch'' else e)) \<and>
                 objects db' ''PaperChunk'' =
                   objects db ''PaperChunk'' @ map (stored embed_query pid title uid date) done @
                   (if exit_flushes \<and> up (50 * b)
                    then map (stored embed_query pid title uid date) pre else []) \<and>
                 (\<forall>x \<in> set done.
                    (retrieved None (data_object_of pid title uid date x) :: 'd retrieved_chunk) \<in>
                      set (retrieve_by_paper_id True db' pid uid
                             (length (objects db' ''PaperChunk''))))))
       \<and> (chunk_text split_text pages = done @ rest \<and> rest \<noteq> [] \<and>
          (\<forall>x \<in> set (take 50 rest). \<exists>v. embed_query (content x) = Inr v) \<and>
          \<not> up (50 * b) \<longrightarrow>
          (\<exists>db'. ingest_pdf embed_query exit_flushes up split_text pages pid title uid date db =
                   (db', Inl (StoreUnavailableError ''batch'')) \<and>
                 objects db' ''PaperChunk'' =
                   objects db ''PaperChunk'' @ map (stored embed_query pid title uid date) done \<and>
                 (\<forall>x \<in> set done.
                    (retrieved None (data_object_of pid title uid date x) :: 'd retrieved_chunk) \<in>
                      set (retrieve_by_paper_id True db' pid uid
                             (length (objects db' ''PaperChunk''))))))"
proof (intro conjI impI)
  assume a: "chunk_text split_text pages = done @ pre @ c # post \<and> length pre < 50 \<and>
          (\<forall>x \<in> set pre. \<exists>v. embed_query (content x) = Inr v) \<and>
          embed_query (content c) = Inl e"
  then have ch: "chunk_text split_text pages = done @ pre @ c # post"
    and lp: "length pre < 50"
    and ep: "\<forall>x \<in> set pre. \<exists>v. embed_query (content x) = Inr v"
    and ec: "embed_query (content c) = Inl e"
    by blast+
  let ?db' = "if exit_flushes \<and> up (50 * b)
              then append_objects db (map (stored embed_query pid title uid date) (done @ pre))
              else append_objects db (map (stored embed_query pid title uid date) done)"
  have ing: "ingest_pdf embed_query exit_flushes up split_text pages pid title uid date db =
               (?db', Inl (if exit_flushes \<and> pre \<noteq> [] \<and> \<not> up (50 * b)
                           then StoreUnavailableError ''batch'' else e))"
    by (rule ingest_pdf_embedding_failure[OF ch assms lp ep ec])
  have objs: "objects ?db' ''PaperChunk'' =
                objects db ''PaperChunk'' @ map (stored embed_query pid title uid date) done @
                (if exit_flushes \<and> up (50 * b)
                 then map (stored embed_query pid title uid date) pre else [])"
    by simp
  have disc: "\<forall>x \<in> set done.
                (retrieved None (data_object_of pid title uid date x) :: 'd retrieved_chunk) \<in>
                  set (retrieve_by_paper_id True ?db' pid uid (length (objects ?db' ''PaperChunk'')))"
  proof
    fix x assume "x \<in> set done"
    with objs show
      "(retrieved None (data_object_of pid title uid date x) :: 'd retrieved_chunk) \<in>
         set (retrieve_by_paper_id True ?db' pid uid (length (objects ?db' ''PaperChunk'')))"
      by (rule stored_discoverable)
  qed
  show "\<exists>db'. ingest_pdf embed_query exit_flushes up split_text pages pid title uid date db =
                   (db', Inl (if exit_flushes \<and> pre \<noteq> [] \<and> \<not> up (50 * b)
                              then StoreUnavailableError ''batch'' else e)) \<and>
                 objects db' ''PaperChunk'' =
                   objects db ''PaperChunk'' @ map (stored embed_query pid title uid date) done @
                   (if exit_flushes \<and> up (50 * b)
                    then map (stored embed_query pid title uid date) pre else []) \<and>
                 (\<forall>x \<in> set done.
                    (retrieved None (data_object_of pid title uid date x) :: 'd retrieved_chunk) \<in>
                      set (retrieve_by_paper_id True db' pid uid
                             (length (objects db' ''PaperChunk''))))"
    using ing objs disc by (intro exI[where x = ?db'] conjI)
next
  assume a: "chunk_text split_text pages = done @ rest \<and> rest \<noteq> [] \<and>
          (\<forall>x \<in> set (take 50 rest). \<exists>v. embed_query (content x) = Inr v) \<and>
          \<not> up (50 * b)"
  then have ch: "chunk_text split_text pages = done @ rest"
    and ne: "rest \<noteq> []"
    and er: "\<forall>x \<in> set (take 50 rest). \<exists>v. embed_query (content x) = Inr v"
    and down: "\<not> up (50 * b)"
    by blast+
  let ?db' = "append_objects db (map (stored embed_query pid title uid date) done)"
  have ing: "ingest_pdf embed_query exit_flushes up split_text pages pid title uid date db =
               (?db', Inl (StoreUnavailableError ''batch''))"
    by (rule ingest_pdf_rejected[OF ch assms ne er down])
  have objs: "objects ?db' ''PaperChunk'' =
                objects db ''PaperChunk'' @ map (stored embed_query pid title uid date) done"
    by simp
  have objs': "objects ?db' ''PaperChunk'' =
                objects db ''PaperChunk'' @ map (stored embed_query pid title uid date) done @ []"
    by simp
  have disc: "\<forall>x \<in> set done.
                (retrieved None (data_object_of pid title uid date x) :: 'd retrieved_chunk) \<in>
                  set (retrieve_by_paper_id True ?db' pid uid (length (objects ?db' ''PaperChunk'')))"
  proof
    fix x assume "x \<in> set done"
    with objs' show
      "(retrieved None (data_object_of pid title uid date x) :: 'd retrieved_chunk) \<in>
         set (retrieve_by_paper_id True ?db' pid uid (length (objects ?db' ''PaperChunk'')))"
      by (rule stored_discoverable)
  qed
  show "\<exists>db'. ingest_pdf embed_query exit_flushes up split_text pages pid title uid date db =
                   (db', Inl (StoreUnavailableError ''batch'')) \<and>
                 objects db' ''PaperChunk'' =
                   objects db ''PaperChunk'' @ map (stored embed_query pid title uid date) done \<and>
                 (\<forall>x \<in> set done.
                    (retrieved None (data_object_of pid title uid date x) :: 'd retrieved_chunk) \<in>
                      set (retrieve_by_paper_id True db' pid uid
                             (length (objects db' ''PaperChunk''))))"
    using ing objs disc by (intro exI[where x = ?db'] conjI)
qed

text \<open>
  The theorem at the document of 51 one-chunk pages: once with the embedding of the last
  chunk failing, once with the backend rejecting the second batch.
\<close>

theorem ingestion_keeps_earlier_batches_witness:
  "(\<exists>db'. failed_ingestion True = (db', Inl (EmbeddingError ''quota exceeded'')) \<and>
          objects db' ''PaperChunk'' =
            map (stored fragile_embed ''paper-9'' ''Paper'' ''u1'' ''2024-01-01'') good_chunks \<and>
          list_all (\<lambda>x. (retrieved None (data_object_of ''paper-9'' ''Paper'' ''u1'' ''2024-01-01'' x)
                          :: int retrieved_chunk) \<in>
                       set (retrieve_by_paper_id True db' ''paper-9'' ''u1''
                              (length (objects db' ''PaperChunk''))))
            good_chunks)
   \<and> (\<exists>db'. rejected_ingestion True = (db', Inl (StoreUnavailableError ''batch'')) \<and>
          objects db' ''PaperChunk'' =
            map (stored embed_zero ''paper-9'' ''Paper'' ''u1'' ''2024-01-01'') good_chunks \<and>
          list_all (\<lambda>x. (retrieved None (data_object_of ''paper-9'' ''Paper'' ''u1'' ''2024-01-01'' x)
                          :: int retrieved_chunk) \<in>
                       set (retrieve_by_paper_id True db' ''paper-9'' ''u1''
                              (length (objects db' ''PaperChunk''))))
            good_chunks)"
proof (rule conjI)
  have len: "length good_chunks = 50 * 1" by (simp add: good_len)
  have up: "\<forall>j < 1. (\<lambda>i. True) (50 * j)" by simp
  have fails: "chunk_text one_piece fifty_one_pages = good_chunks @ [] @ bad_chunk # [] \<and>
      length ([] :: chunk list) < 50 \<and>
      (\<forall>x \<in> set ([] :: chunk list). \<exists>v. fragile_embed (content x) = Inr v) \<and>
      fragile_embed (content bad_chunk) = Inl (EmbeddingError ''quota exceeded'')"
    by (simp add: fifty_one_pages_chunks bad_chunk_def fragile_embed_def)
  from ingestion_keeps_earlier_batches[where up = "\<lambda>i. True" and b = 1
      and embed_query = fragile_embed and exit_flushes = True and split_text = one_piece
      and pages = fifty_one_pages and pre = "[]" and c = bad_chunk and post = "[]"
      and e = "EmbeddingError ''quota exceeded''" and pid = "''paper-9''"
      and title = "''Paper''" and uid = "''u1''" and date = "''2024-01-01''"
      and db = Map.empty and 'd = int,
      OF len good_chunks_embed up, THEN conjunct1, THEN mp, OF fails]
  show "\<exists>db'. failed_ingestion True = (db', Inl (EmbeddingError ''quota exceeded'')) \<and>
          objects db' ''PaperChunk'' =
            map (stored fragile_embed ''paper-9'' ''Paper'' ''u1'' ''2024-01-01'') good_chunks \<and>
          list_all (\<lambda>x. (retrieved None (data_object_of ''paper-9'' ''Paper'' ''u1'' ''2024-01-01'' x)
                          :: int retrieved_chunk) \<in>
                       set (retrieve_by_paper_id True db' ''paper-9'' ''u1''
                              (length (objects db' ''PaperChunk''))))
            good_chunks"
    by (simp add: failed_ingestion_def objects_def list_all_iff)
next
  have len: "length good_chunks = 50 * 1" by (simp add: good_len)
  have up: "\<forall>j < 1. (\<lambda>i::nat. i < 50) (50 * j)" by simp
  have rejects: "chunk_text one_piece fifty_one_pages = good_chunks @ [bad_chunk] \<and>
      [bad_chunk] \<noteq> [] \<and>
      (\<forall>x \<in> set (take 50 [bad_chunk]). \<exists>v. embed_zero (content x) = Inr v) \<and>
      \<not> (\<lambda>i::nat. i < 50) (50 * 1)"
    by (simp add: fifty_one_pages_chunks embed_zero_def)
  from ingestion_keeps_earlier_batches[where up = "\<lambda>i::nat. i < 50" and b = 1
      and embed_query = embed_zero and exit_flushes = True and split_text = one_piece
      and pages = fifty_one_pages and rest = "[bad_chunk]" and pid = "''paper-9''"
      and title = "''Paper''" and uid = "''u1''" and date = "''2024-01-01''"
      and db = Map.empty and 'd = int,
      OF len good_chunks_embed_zero up, THEN conjunct2, THEN mp, OF rejects]
  show "\<exists>db'. rejected_ingestion True = (db', Inl (StoreUnavailableError ''batch'')) \<and>
          objects db' ''PaperChunk'' =
            map (stored embed_zero ''paper-9'' ''Paper'' ''u1'' ''2024-01-01'') good_chunks \<and>
          list_all (\<lambda>x. (retrieved None (data_object_of ''paper-9'' ''Paper'' ''u1'' ''2024-01-01'' x)
                          :: int retrieved_chunk) \<in>
                       set (retrieve_by_paper_id True db' ''paper-9'' ''u1''
                              (length (objects db' ''PaperChunk''))))
            good_chunks"
    by (simp add: rejected_ingestion_def objects_def list_all_iff)
qed

text \<open>
  C3 as stated fails: the document of 51 pages, each a single chunk, whose last embedding
  fails ends in that error, and 50 of its 51 chunks are stored under its paper id and
  returned by retrieval. It is so whether or not the client sends pending objects on
  leaving the block.
\<close>

theorem ingestion_atomic_counterexample:
  "snd (failed_ingestion True) = Inl (EmbeddingError ''quota exceeded'')
   \<and> length (chunk_text one_piece fifty_one_pages) = 51
   \<and> length (filter (\<lambda>(obj, v). paper_id obj = ''paper-9'')
               (objects (fst (failed_ingestion True)) ''PaperChunk'')) = 50
   \<and> length (retrieve_by_paper_id True (fst (failed_ingestion True)) ''paper-9'' ''u1'' 20
               :: int retrieved_chunk list) = 20
   \<and> failed_ingestion False = failed_ingestion True"
proof -
  have "length (retrieve_by_paper_id True (fst (failed_ingestion True)) ''paper-9'' ''u1'' 20
               :: int retrieved_chunk list) = 20"
  proof -
    have m: "filter ((\<lambda>(obj, v). text_property ''paper_id'' obj = Some ''paper-9'' \<and>
                                 text_property ''user_id'' obj = Some ''u1'') \<circ>
                     stored fragile_embed ''paper-9'' ''Paper'' ''u1'' ''2024-01-01'') cs = cs" for cs
      by (induction cs) (simp_all add: stored_def data_object_of_def text_property_def)
    have ne: "good_chunks \<noteq> []"
      using good_len by auto
    show ?thesis
      by (simp add: failed_ingestion_eq retrieve_by_paper_id_def get_where_def matching_def
          append_objects_def objects_def ne m good_len)
  qed
  moreover have "objects Map.empty ''PaperChunk'' = ([] :: (data_object \<times> int) list)"
    by (simp add: objects_def)
  ultimately show ?thesis
    by (simp add: failed_ingestion_eq fifty_one_pages_chunks good_len stored_paper_filter)
qed

subsection \<open>Construction of the ingester\<close>

text \<open>
  C4 (as the code has it). Constructing the ingester with a complete configuration always
  completes, and it issues \<open>delete_class\<close> without any test of the store, then
  \<open>create_class\<close>. When the backend carries out the deletion, nothing of what the store
  held before is left, whatever it was: the class \<open>PaperChunk\<close> is there again and empty
  when the creation is carried out too, and absent otherwise, and no retrieval finds a
  chunk. When the deletion fails, the handler skips it, and the class holds the objects
  it held before.
\<close>

theorem init_destroys_stored_chunks:
  assumes "weaviate_url \<noteq> []" and "weaviate_api_key \<noteq> []"
  shows "\<exists>db'. ingester_init weaviate_url weaviate_api_key delete_ok create_ok db = Inr db' \<and>
           (delete_ok \<longrightarrow>
              db' ''PaperChunk'' = (if create_ok then Some [] else None) \<and>
              objects db' ''PaperChunk'' = [] \<and>
              retrieve_relevant_chunks embed_query dist ok db' query uid top_k = [] \<and>
              retrieve_by_paper_id ok db' pid uid top_k = ([] :: 'd retrieved_chunk list) \<and>
              get_user_papers ok db' uid = []) \<and>
           (\<not> delete_ok \<longrightarrow> objects db' ''PaperChunk'' = objects db ''PaperChunk'')"
proof -
  let ?db' = "create_schema delete_ok create_ok db"
  have init: "ingester_init weaviate_url weaviate_api_key delete_ok create_ok db = Inr ?db'"
    using assms by (simp add: ingester_init_def)
  have kept: "objects ?db' ''PaperChunk'' = objects db ''PaperChunk''" if "\<not> delete_ok"
    using that
    by (simp add: create_schema_def delete_class_def create_class_def objects_def)
  have gone: "?db' ''PaperChunk'' = (if create_ok then Some [] else None) \<and>
              objects ?db' ''PaperChunk'' = [] \<and>
              retrieve_relevant_chunks embed_query dist ok ?db' query uid top_k = [] \<and>
              retrieve_by_paper_id ok ?db' pid uid top_k = ([] :: 'd retrieved_chunk list) \<and>
              get_user_papers ok ?db' uid = []" if d: "delete_ok"
  proof -
    have cls: "?db' ''PaperChunk'' = (if create_ok then Some [] else None)"
      using d by (simp add: create_schema_def delete_class_def create_class_def)
    then have c2: "?db' ''PaperChunk'' = None \<or> ?db' ''PaperChunk'' = Some []"
      by (cases create_ok) simp_all
    then have "objects ?db' ''PaperChunk'' = []"
      by (auto simp add: objects_def)
    moreover from c2 have "retrieve_relevant_chunks embed_query dist ok ?db' query uid top_k = []"
      by (auto simp add: retrieve_relevant_chunks_def get_near_vector_def matching_def
          split: sum.splits)
    moreover from c2 have "retrieve_by_paper_id ok ?db' pid uid top_k = ([] :: 'd retrieved_chunk list)"
      by (auto simp add: retrieve_by_paper_id_def get_where_def matching_def)
    moreover from c2 have "get_user_papers ok ?db' uid = []"
      by (auto simp add: get_user_papers_def get_where_def matching_def)
    ultimately show ?thesis using cls by (intro conjI)
  qed
  from init kept gone show ?thesis
    by (intro exI[where x = ?db'] conjI impI) blast+
qed

text \<open>
  The theorem at the store of three chunks, with the deletion carried out and with the
  deletion failing.
\<close>

theorem init_destroys_stored_chunks_witness:
  "length (objects small_store ''PaperChunk'') = 3
   \<and> (\<exists>db'. ingester_init ''https://cluster.example'' ''secret'' True True small_store = Inr db' \<and>
           db' ''PaperChunk'' = Some [] \<and>
           retrieve_relevant_chunks embed_zero gap True db' ''q'' ''u1'' 5 = [] \<and>
           get_user_papers True db' ''u1'' = [])
   \<and> (\<exists>db'. ingester_init ''https://cluster.example'' ''secret'' False True small_store = Inr db' \<and>
           length (objects db' ''PaperChunk'') = 3)"
proof -
  have three: "length (objects small_store ''PaperChunk'') = 3"
    by (simp add: small_store_def objects_def)
  have url: "''https://cluster.example'' \<noteq> []" and key: "''secret'' \<noteq> []" by simp_all
  from init_destroys_stored_chunks[where delete_ok = True and create_ok = True
      and db = small_store and embed_query = embed_zero and dist = gap and ok = True
      and query = "''q''" and uid = "''u1''" and top_k = 5 and pid = "''paper-1''"
      and 'd = int, OF url key]
  have a: "\<exists>db'. ingester_init ''https://cluster.example'' ''secret'' True True small_store = Inr db' \<and>
           db' ''PaperChunk'' = Some [] \<and>
           retrieve_relevant_chunks embed_zero gap True db' ''q'' ''u1'' 5 = [] \<and>
           get_user_papers True db' ''u1'' = []"
    by auto
  from init_destroys_stored_chunks[where delete_ok = False and create_ok = True
      and db = small_store and embed_query = embed_zero and dist = gap and ok = True
      and query = "''q''" and uid = "''u1''" and top_k = 5 and pid = "''paper-1''"
      and 'd = int, OF url key] three
  have b: "\<exists>db'. ingester_init ''https://cluster.example'' ''secret'' False True small_store = Inr db' \<and>
           length (objects db' ''PaperChunk'') = 3"
    by auto
  from three a b show ?thesis by (intro conjI)
qed

text \<open>
  C4 as stated fails: on a backend that fails the deletion, construction completes, the
  store is the one it was, and the chunks of user \<open>u1\<close> ingested before are still
  retrieved and listed.
\<close>

theorem init_keeps_chunks_counterexample:
  "ingester_init ''https://cluster.example'' ''secret'' False True small_store = Inr small_store
   \<and> map content (retrieve_relevant_chunks embed_zero gap True small_store ''q'' ''u1'' 5) =
       [''c-text'', ''a-text'']
   \<and> map content (retrieve_by_paper_id True small_store ''paper-1'' ''u1'' 20
                    :: int retrieved_chunk list) = [''a-text'', ''c-text'']
   \<and> map info_paper_id (get_user_papers True small_store ''u1'') = [''paper-1'']"
proof (intro conjI)
  show "ingester_init ''https://cluster.example'' ''secret'' False True small_store = Inr small_store"
    by (simp add: ingester_init_def create_schema_def delete_class_def create_class_def
        small_store_def)
  show "map content (retrieve_relevant_chunks embed_zero gap True small_store ''q'' ''u1'' 5) =
       [''c-text'', ''a-text'']"
    by (simp add: retrieve_relevant_chunks_def get_near_vector_def
        matching_def small_store_def gap_def embed_zero_def text_property_def retrieved_def)
  show "map content (retrieve_by_paper_id True small_store ''paper-1'' ''u1'' 20
                    :: int retrieved_chunk list) = [''a-text'', ''c-text'']"
    by (simp add: retrieve_by_paper_id_def get_where_def
        matching_def small_store_def text_property_def retrieved_def)
  show "map info_paper_id (get_user_papers True small_store ''u1'') = [''paper-1'']"
    by (simp add: get_user_papers_def get_where_def
        matching_def small_store_def text_property_def)
qed

section \<open>Properties of the chain\<close>

text \<open>
  C8. For every persona, query and language model: when retrieval yields the empty list,
  \<open>generate_response\<close> returns its fixed "no relevant information" answer with an empty
  citation list and has made no call of the language model; \<open>generate_summary\<close> and
  \<open>generate_comparison\<close> do the same with their own fixed answers.
\<close>

theorem empty_retrieval_short_circuit:
  "(retrieve query uid 5 = Inr [] \<longrightarrow>
      generate_response retrieve llm query persona uid =
        (\<lparr>answer = no_relevant_information, answer_sources = []\<rparr>, []))
   \<and> (retrieve pid uid 20 = Inr [] \<longrightarrow>
      generate_summary retrieve llm pid uid persona =
        (\<lparr>answer = paper_not_found, answer_sources = []\<rparr>, []))
   \<and> (retrieve query uid 10 = Inr [] \<longrightarrow>
      generate_comparison retrieve llm query uid persona =
        (\<lparr>answer = no_information_for_comparison, answer_sources = []\<rparr>, []))"
  by (simp add: generate_response_def generate_summary_def generate_comparison_def)

theorem empty_retrieval_short_circuit_witness:
  "generate_response nothing_found echo_llm ''What is attention?'' ''Student'' ''u1'' =
     (\<lparr>answer = ''I couldn't find any relevant information in your uploaded papers. '' @
                 ''Please make sure you have uploaded the papers you'd like me to analyze.'',
       answer_sources = []\<rparr>, [])
   \<and> generate_summary nothing_found echo_llm ''paper-1'' ''u1'' ''Student'' =
     (\<lparr>answer = ''I couldn't find the specified paper in your uploaded documents.'',
       answer_sources = []\<rparr>, [])"
  using empty_retrieval_short_circuit[where retrieve = nothing_found and llm = echo_llm
      and query = "''What is attention?''" and persona = "''Student''" and uid = "''u1''"
      and pid = "''paper-1''"]
  by (simp add: nothing_found_def no_relevant_information_def paper_not_found_def)

end
